theory Spec2Isabelle
  imports Complex_Main "HOL-Library.Log_Nat"
begin

section \<open>Data model\<close>

text \<open>
  The editor works in centimetres held in JavaScript numbers, which are IEEE-754 doubles.
  A finite double is modelled as the real number it denotes, and the operations \<open>+\<close>, \<open>-\<close>
  and \<open>/\<close> of the code as \<open>fadd\<close>, \<open>fsub\<close> and \<open>fdiv\<close> below, which round the exact
  result to the nearest double.  An optional field or an \<^verbatim>\<open>undefined\<close> local is an
  \<open>option\<close>.
\<close>

section \<open>Numbers\<close>

text \<open>
  \<open>expo a\<close>, for positive \<open>a\<close>, is the exponent of the binade of \<open>a\<close>: the integer \<open>e\<close> with
  \<open>2 powi e \<le> a < 2 powi (e + 1)\<close>.  \<open>ulp x\<close> is the spacing of the doubles at \<open>x\<close>: 52 binary
  places below the leading bit, and never below \<open>2 powi (- 1074)\<close>, the spacing of the
  subnormal doubles.
\<close>

definition expo :: "real \<Rightarrow> int" where
  "expo a = (if 1 \<le> a then bitlen \<lfloor>a\<rfloor> - 1 else - bitlen (\<lceil>1 / a\<rceil> - 1))"

definition ulp :: "real \<Rightarrow> real" where
  "ulp x = 2 powi (max (expo \<bar>x\<bar> - 52) (- 1074))"

text \<open>Rounding to the nearest integer, a tie going to the even one.\<close>

definition roundEven :: "real \<Rightarrow> int" where
  "roundEven t =
     (let f = \<lfloor>t\<rfloor>; r = t - of_int f
      in if r < 1 / 2 then f else if 1 / 2 < r then f + 1 else if even f then f else f + 1)"

text \<open>
  \<open>rd x\<close> is the double nearest to \<open>x\<close> (round to nearest, ties to even): the rounding
  every arithmetic operation of the code ends with, and the value a decimal literal
  denotes.  A result of magnitude \<open>2 ^ 1024\<close> or more, which the machine turns into an
  infinity, as well as NaN and the sign of zero, are not modelled.  \<^verbatim>\<open>Math.abs\<close>,
  comparisons and the remainder \<^verbatim>\<open>%\<close> are exact on doubles and need no rounding.
\<close>

definition rd :: "real \<Rightarrow> real" where
  "rd x = (if x = 0 then 0 else of_int (roundEven (x / ulp x)) * ulp x)"

definition fadd :: "real \<Rightarrow> real \<Rightarrow> real" where
  "fadd a b = rd (a + b)"

definition fsub :: "real \<Rightarrow> real \<Rightarrow> real" where
  "fsub a b = rd (a - b)"

definition fdiv :: "real \<Rightarrow> real \<Rightarrow> real" where
  "fdiv a b = rd (a / b)"

text \<open>A whole number of centimetres, of magnitude at most \<open>2 ^ 40\<close>; and a coordinate within
  the extent of a plan, ten kilometres.\<close>

definition wholeCm :: "real \<Rightarrow> bool" where
  "wholeCm x = (of_int \<lfloor>x\<rfloor> = x \<and> \<bar>x\<bar> \<le> 2 ^ 40)"

definition planCm :: "real \<Rightarrow> bool" where
  "planCm x = (\<bar>x\<bar> \<le> 1000000)"

text \<open>The error of one rounding on a value of magnitude at most 8000000: half the spacing of
  the doubles there, \<open>2 powi (- 30)\<close>.\<close>

definition rdErr :: real where
  "rdErr = 1 / 2 ^ 31"

section \<open>Records\<close>

text \<open>
  \<^verbatim>\<open>model/types\<close> is not among the sources; the records below carry the fields that
  the sources read and write.  \<open>ident\<close> is the field \<^verbatim>\<open>id\<close> and \<open>openingType\<close>
  the field \<^verbatim>\<open>type\<close>.  Several records have fields of the same name; where a name
  is ambiguous it is written qualified (\<open>Room.xCm\<close>, \<open>SnapResult.xCm\<close>).
\<close>

datatype WallSide = North | South | East | West

datatype OpeningType = Door | Window

record WallOpening =
  ident :: string
  roomId :: string
  wall :: WallSide
  positionCm :: real
  widthCm :: real
  openingType :: OpeningType

record ObjectDef =
  ident :: string
  name :: string
  widthCm :: real
  heightCm :: real

record PlacedObject =
  ident :: string
  defId :: string
  roomId :: string
  xCm :: real
  yCm :: real
  rotationDeg :: "real option"

text \<open>\<^verbatim>\<open>interface PlacedObjectForSnap\<close> of the snap engine.\<close>

record PlacedObjectForSnap =
  ident :: string
  xCm :: real
  yCm :: real
  widthCm :: real
  heightCm :: real

text \<open>\<^verbatim>\<open>room.wallThickness\<close>: the optional per-side override, each side optional.\<close>

record WallThickness =
  north :: "real option"
  south :: "real option"
  east :: "real option"
  west :: "real option"

record Room =
  ident :: string
  name :: string
  xCm :: real
  yCm :: real
  widthCm :: real
  heightCm :: real
  wallThickness :: "WallThickness option"

text \<open>\<^verbatim>\<open>type WallSides = { north; south; east; west }\<close>: the resolved thicknesses.\<close>

record WallSides =
  north :: real
  south :: real
  east :: real
  west :: real

text \<open>The object returned by \<^verbatim>\<open>innerBoundsCm\<close> (\<open>top'\<close> is the field
  \<^verbatim>\<open>top\<close>), and the one returned by \<^verbatim>\<open>outerBoundsCm\<close>, which adds the
  field \<^verbatim>\<open>w\<close> (here \<open>wSides\<close>).\<close>

record Bounds =
  left :: real
  right :: real
  top' :: real
  bottom :: real

record OuterBounds = Bounds +
  wSides :: WallSides

record SnapResult =
  xCm :: real
  yCm :: real
  snappedX :: bool
  snappedY :: bool
  xGuideCm :: "real option"
  yGuideCm :: "real option"

section \<open>Room snapping (editor/Snap)\<close>

definition SNAP_TOLERANCE_CM :: real where
  "SNAP_TOLERANCE_CM = 2"

definition WALL_SNAP_TOLERANCE_CM :: real where
  "WALL_SNAP_TOLERANCE_CM = 15"

text \<open>\<^verbatim>\<open>room.wallThickness?.north ?? globalWallThicknessCm\<close>\<close>

definition sideOr :: "WallThickness option \<Rightarrow> (WallThickness \<Rightarrow> real option) \<Rightarrow> real \<Rightarrow> real" where
  "sideOr wt side globalWallThicknessCm =
     (case wt of
        None \<Rightarrow> globalWallThicknessCm
      | Some t \<Rightarrow> (case side t of None \<Rightarrow> globalWallThicknessCm | Some v \<Rightarrow> v))"

definition getWallThicknessCm :: "Room \<Rightarrow> real \<Rightarrow> WallSides" where
  "getWallThicknessCm room globalWallThicknessCm =
     \<lparr> WallSides.north = sideOr (wallThickness room) WallThickness.north globalWallThicknessCm,
       WallSides.south = sideOr (wallThickness room) WallThickness.south globalWallThicknessCm,
       WallSides.east = sideOr (wallThickness room) WallThickness.east globalWallThicknessCm,
       WallSides.west = sideOr (wallThickness room) WallThickness.west globalWallThicknessCm \<rparr>"

text \<open>A parameter with a default (\<^verbatim>\<open>xCm: number = room.xCm\<close>) is an option:
  \<open>None\<close> is the omitted argument.\<close>

definition innerBoundsCm :: "Room \<Rightarrow> real option \<Rightarrow> real option \<Rightarrow> Bounds" where
  "innerBoundsCm room xArg yArg =
     (let x = (case xArg of None \<Rightarrow> Room.xCm room | Some v \<Rightarrow> v);
          y = (case yArg of None \<Rightarrow> Room.yCm room | Some v \<Rightarrow> v)
      in \<lparr> left = x, right = fadd x (widthCm room), top' = y, bottom = fadd y (heightCm room) \<rparr>)"

definition outerBoundsCm :: "Room \<Rightarrow> real \<Rightarrow> real option \<Rightarrow> real option \<Rightarrow> OuterBounds" where
  "outerBoundsCm room globalWallThicknessCm xArg yArg =
     (let x = (case xArg of None \<Rightarrow> Room.xCm room | Some v \<Rightarrow> v);
          y = (case yArg of None \<Rightarrow> Room.yCm room | Some v \<Rightarrow> v);
          ws = getWallThicknessCm room globalWallThicknessCm
      in \<lparr> left = fsub x (WallSides.west ws),
           right = fadd (fadd x (widthCm room)) (WallSides.east ws),
           top' = fsub y (WallSides.north ws),
           bottom = fadd (fadd y (heightCm room)) (WallSides.south ws),
           wSides = ws \<rparr>)"

text \<open>
  The loop variables \<^verbatim>\<open>snappedXCm, snappedYCm, snappedX, snappedY, xGuideCm, yGuideCm\<close>
  of \<^verbatim>\<open>calculateSnap\<close> are carried in a \<open>SnapResult\<close> (\<open>xCm\<close> holds
  \<^verbatim>\<open>snappedXCm\<close>, \<open>yCm\<close> holds \<^verbatim>\<open>snappedYCm\<close>), which is what the function
  returns from them at the end.

  \<open>snapXBody\<close> is the block \<^verbatim>\<open>if (!snappedX) { ... }\<close> of one iteration, its four
  tests in the order of the source, each later one guarded by \<^verbatim>\<open>if (!snappedX)\<close>.
\<close>

definition snapXBody :: "Room \<Rightarrow> OuterBounds \<Rightarrow> real \<Rightarrow> Room \<Rightarrow> SnapResult \<Rightarrow> SnapResult" where
  "snapXBody movingRoom movingOuter globalWallThicknessCm other s0 =
     (let movingWalls = wSides movingOuter;
          otherInner = innerBoundsCm other None None;
          otherOuter = outerBoundsCm other globalWallThicknessCm None None
      in
      if snappedX s0 then s0 else
      let s1 = (if \<bar>fsub (right movingOuter) (left otherInner)\<bar> \<le> WALL_SNAP_TOLERANCE_CM
                then s0\<lparr> xCm := fsub (fsub (left otherInner) (widthCm movingRoom)) (WallSides.east movingWalls),
                         snappedX := True, xGuideCm := Some (left otherInner) \<rparr>
                else s0);
          s2 = (if \<not> snappedX s1 \<and> \<bar>fsub (left movingOuter) (right otherInner)\<bar> \<le> WALL_SNAP_TOLERANCE_CM
                then s1\<lparr> xCm := fadd (right otherInner) (WallSides.west movingWalls),
                         snappedX := True, xGuideCm := Some (right otherInner) \<rparr>
                else s1);
          s3 = (if \<not> snappedX s2 \<and> \<bar>fsub (left movingOuter) (left otherOuter)\<bar> \<le> SNAP_TOLERANCE_CM
                then s2\<lparr> xCm := fadd (left otherOuter) (WallSides.west movingWalls),
                         snappedX := True, xGuideCm := Some (left otherOuter) \<rparr>
                else s2);
          s4 = (if \<not> snappedX s3 \<and> \<bar>fsub (right movingOuter) (right otherOuter)\<bar> \<le> SNAP_TOLERANCE_CM
                then s3\<lparr> xCm := fsub (fsub (right otherOuter) (widthCm movingRoom)) (WallSides.east movingWalls),
                         snappedX := True, xGuideCm := Some (right otherOuter) \<rparr>
                else s3)
      in s4)"

text \<open>\<open>snapYBody\<close> is the block \<^verbatim>\<open>if (!snappedY) { ... }\<close>.\<close>

definition snapYBody :: "Room \<Rightarrow> OuterBounds \<Rightarrow> real \<Rightarrow> Room \<Rightarrow> SnapResult \<Rightarrow> SnapResult" where
  "snapYBody movingRoom movingOuter globalWallThicknessCm other s0 =
     (let movingWalls = wSides movingOuter;
          otherInner = innerBoundsCm other None None;
          otherOuter = outerBoundsCm other globalWallThicknessCm None None
      in
      if snappedY s0 then s0 else
      let s1 = (if \<bar>fsub (bottom movingOuter) (top' otherInner)\<bar> \<le> WALL_SNAP_TOLERANCE_CM
                then s0\<lparr> yCm := fsub (fsub (top' otherInner) (heightCm movingRoom)) (WallSides.south movingWalls),
                         snappedY := True, yGuideCm := Some (top' otherInner) \<rparr>
                else s0);
          s2 = (if \<not> snappedY s1 \<and> \<bar>fsub (top' movingOuter) (bottom otherInner)\<bar> \<le> WALL_SNAP_TOLERANCE_CM
                then s1\<lparr> yCm := fadd (bottom otherInner) (WallSides.north movingWalls),
                         snappedY := True, yGuideCm := Some (bottom otherInner) \<rparr>
                else s1);
          s3 = (if \<not> snappedY s2 \<and> \<bar>fsub (top' movingOuter) (top' otherOuter)\<bar> \<le> SNAP_TOLERANCE_CM
                then s2\<lparr> yCm := fadd (top' otherOuter) (WallSides.north movingWalls),
                         snappedY := True, yGuideCm := Some (top' otherOuter) \<rparr>
                else s2);
          s4 = (if \<not> snappedY s3 \<and> \<bar>fsub (bottom movingOuter) (bottom otherOuter)\<bar> \<le> SNAP_TOLERANCE_CM
                then s3\<lparr> yCm := fsub (fsub (bottom otherOuter) (heightCm movingRoom)) (WallSides.south movingWalls),
                         snappedY := True, yGuideCm := Some (bottom otherOuter) \<rparr>
                else s3)
      in s4)"

text \<open>The loop \<^verbatim>\<open>for (const other of others) { ...; if (snappedX && snappedY) break; }\<close>.\<close>

fun snapLoop :: "Room \<Rightarrow> OuterBounds \<Rightarrow> real \<Rightarrow> Room list \<Rightarrow> SnapResult \<Rightarrow> SnapResult" where
  "snapLoop movingRoom movingOuter g [] s = s"
| "snapLoop movingRoom movingOuter g (other # rest) s =
     (let s' = snapYBody movingRoom movingOuter g other (snapXBody movingRoom movingOuter g other s)
      in if snappedX s' \<and> snappedY s' then s' else snapLoop movingRoom movingOuter g rest s')"

text \<open>\<^verbatim>\<open>movingInner\<close> is computed by the source and never read; it is left out.\<close>

definition calculateSnap :: "Room \<Rightarrow> Room list \<Rightarrow> real \<Rightarrow> real \<Rightarrow> real \<Rightarrow> SnapResult" where
  "calculateSnap movingRoom allRooms targetXCm targetYCm globalWallThicknessCm =
     (let others = filter (\<lambda>r. ident r \<noteq> ident movingRoom) allRooms;
          movingOuter = outerBoundsCm movingRoom globalWallThicknessCm (Some targetXCm) (Some targetYCm)
      in snapLoop movingRoom movingOuter globalWallThicknessCm others
           \<lparr> xCm = targetXCm, yCm = targetYCm, snappedX = False, snappedY = False,
             xGuideCm = None, yGuideCm = None \<rparr>)"

text \<open>A room whose position, size and wall thicknesses (as \<^verbatim>\<open>getWallThicknessCm\<close> gives
  them) are all within the extent of a plan, and one where they are all whole centimetres.\<close>

definition planRoom :: "real \<Rightarrow> Room \<Rightarrow> bool" where
  "planRoom g r =
     (planCm (Room.xCm r) \<and> planCm (Room.yCm r) \<and> planCm (Room.widthCm r) \<and> planCm (Room.heightCm r)
      \<and> planCm (WallSides.north (getWallThicknessCm r g)) \<and> planCm (WallSides.south (getWallThicknessCm r g))
      \<and> planCm (WallSides.east (getWallThicknessCm r g)) \<and> planCm (WallSides.west (getWallThicknessCm r g)))"

definition wholeRoom :: "real \<Rightarrow> Room \<Rightarrow> bool" where
  "wholeRoom g r =
     (wholeCm (Room.xCm r) \<and> wholeCm (Room.yCm r) \<and> wholeCm (Room.widthCm r) \<and> wholeCm (Room.heightCm r)
      \<and> wholeCm (WallSides.north (getWallThicknessCm r g)) \<and> wholeCm (WallSides.south (getWallThicknessCm r g))
      \<and> wholeCm (WallSides.east (getWallThicknessCm r g)) \<and> wholeCm (WallSides.west (getWallThicknessCm r g)))"

subsection \<open>The room-snap rule as the specification words it\<close>

text \<open>
  A candidate is one test of the engine: the distance it measures, the tolerance it is
  compared with, the coordinate it would return and the guide it would show.
\<close>

record SnapCandidate =
  distance :: real
  tol :: real
  pos :: real
  guide :: real

definition matches :: "SnapCandidate \<Rightarrow> bool" where
  "matches c = (distance c \<le> tol c)"

text \<open>
  The candidates of one neighbour on the X axis in priority order: the two wall-overlap
  candidates (outer right to inner left, outer left to inner right, 15 cm), then the two
  outer-edge alignments (left to left, right to right, 2 cm).
\<close>

definition xCandidates :: "Room \<Rightarrow> OuterBounds \<Rightarrow> real \<Rightarrow> Room \<Rightarrow> SnapCandidate list" where
  "xCandidates movingRoom movingOuter g other =
     (let otherInner = innerBoundsCm other None None;
          otherOuter = outerBoundsCm other g None None;
          movingWalls = wSides movingOuter
      in [ \<lparr> distance = \<bar>fsub (right movingOuter) (left otherInner)\<bar>, tol = WALL_SNAP_TOLERANCE_CM,
             pos = fsub (fsub (left otherInner) (widthCm movingRoom)) (WallSides.east movingWalls),
             guide = left otherInner \<rparr>,
           \<lparr> distance = \<bar>fsub (left movingOuter) (right otherInner)\<bar>, tol = WALL_SNAP_TOLERANCE_CM,
             pos = fadd (right otherInner) (WallSides.west movingWalls),
             guide = right otherInner \<rparr>,
           \<lparr> distance = \<bar>fsub (left movingOuter) (left otherOuter)\<bar>, tol = SNAP_TOLERANCE_CM,
             pos = fadd (left otherOuter) (WallSides.west movingWalls),
             guide = left otherOuter \<rparr>,
           \<lparr> distance = \<bar>fsub (right movingOuter) (right otherOuter)\<bar>, tol = SNAP_TOLERANCE_CM,
             pos = fsub (fsub (right otherOuter) (widthCm movingRoom)) (WallSides.east movingWalls),
             guide = right otherOuter \<rparr> ])"

definition yCandidates :: "Room \<Rightarrow> OuterBounds \<Rightarrow> real \<Rightarrow> Room \<Rightarrow> SnapCandidate list" where
  "yCandidates movingRoom movingOuter g other =
     (let otherInner = innerBoundsCm other None None;
          otherOuter = outerBoundsCm other g None None;
          movingWalls = wSides movingOuter
      in [ \<lparr> distance = \<bar>fsub (bottom movingOuter) (top' otherInner)\<bar>, tol = WALL_SNAP_TOLERANCE_CM,
             pos = fsub (fsub (top' otherInner) (heightCm movingRoom)) (WallSides.south movingWalls),
             guide = top' otherInner \<rparr>,
           \<lparr> distance = \<bar>fsub (top' movingOuter) (bottom otherInner)\<bar>, tol = WALL_SNAP_TOLERANCE_CM,
             pos = fadd (bottom otherInner) (WallSides.north movingWalls),
             guide = bottom otherInner \<rparr>,
           \<lparr> distance = \<bar>fsub (top' movingOuter) (top' otherOuter)\<bar>, tol = SNAP_TOLERANCE_CM,
             pos = fadd (top' otherOuter) (WallSides.north movingWalls),
             guide = top' otherOuter \<rparr>,
           \<lparr> distance = \<bar>fsub (bottom movingOuter) (bottom otherOuter)\<bar>, tol = SNAP_TOLERANCE_CM,
             pos = fsub (fsub (bottom otherOuter) (heightCm movingRoom)) (WallSides.south movingWalls),
             guide = bottom otherOuter \<rparr> ])"

text \<open>First match wins: the first candidate of the list within its tolerance decides the
  axis; with none, the axis keeps the values \<open>unsnapped\<close>.\<close>

definition firstMatch :: "real \<times> bool \<times> real option \<Rightarrow> SnapCandidate list \<Rightarrow> real \<times> bool \<times> real option" where
  "firstMatch unsnapped cs =
     (case find matches cs of
        None \<Rightarrow> unsnapped
      | Some c \<Rightarrow> (pos c, True, Some (guide c)))"

text \<open>What a result says about one axis: coordinate, flag and guide.\<close>

text \<open>
  The candidates have two shapes.  One snaps a far edge (right or bottom) of the moving
  room, at \<open>t\<close> plus its extent plus a wall thickness, onto an edge of the neighbour; the
  other snaps a near edge (left or top), at \<open>t\<close> minus a wall thickness.  The operations
  are in the order of the source.
\<close>

definition farCand :: "real \<Rightarrow> real \<Rightarrow> real \<Rightarrow> real \<Rightarrow> real \<Rightarrow> SnapCandidate" where
  "farCand t extent thickness tolerance edge =
     \<lparr> distance = \<bar>fsub (fadd (fadd t extent) thickness) edge\<bar>, tol = tolerance,
       pos = fsub (fsub edge extent) thickness, guide = edge \<rparr>"

definition nearCand :: "real \<Rightarrow> real \<Rightarrow> real \<Rightarrow> real \<Rightarrow> SnapCandidate" where
  "nearCand t thickness tolerance edge =
     \<lparr> distance = \<bar>fsub (fsub t thickness) edge\<bar>, tol = tolerance,
       pos = fadd edge thickness, guide = edge \<rparr>"

definition xPart :: "SnapResult \<Rightarrow> real \<times> bool \<times> real option" where
  "xPart s = (xCm s, snappedX s, xGuideCm s)"

definition yPart :: "SnapResult \<Rightarrow> real \<times> bool \<times> real option" where
  "yPart s = (yCm s, snappedY s, yGuideCm s)"

text \<open>The rooms \<^verbatim>\<open>calculateSnap\<close> iterates over, and all their candidates on one axis
  in the order the loop meets them.\<close>

definition othersOf :: "Room \<Rightarrow> Room list \<Rightarrow> Room list" where
  "othersOf movingRoom allRooms = filter (\<lambda>r. Room.ident r \<noteq> Room.ident movingRoom) allRooms"

definition allXCandidates :: "Room \<Rightarrow> Room list \<Rightarrow> real \<Rightarrow> real \<Rightarrow> real \<Rightarrow> SnapCandidate list" where
  "allXCandidates movingRoom allRooms targetXCm targetYCm g =
     concat (map (xCandidates movingRoom (outerBoundsCm movingRoom g (Some targetXCm) (Some targetYCm)) g)
                 (othersOf movingRoom allRooms))"

definition allYCandidates :: "Room \<Rightarrow> Room list \<Rightarrow> real \<Rightarrow> real \<Rightarrow> real \<Rightarrow> SnapCandidate list" where
  "allYCandidates movingRoom allRooms targetXCm targetYCm g =
     concat (map (yCandidates movingRoom (outerBoundsCm movingRoom g (Some targetXCm) (Some targetYCm)) g)
                 (othersOf movingRoom allRooms))"

section \<open>Object snapping (editor/Snap)\<close>









subsection \<open>The candidates of the object snap\<close>







text \<open>\<open>strictlyNearest c cs\<close>: \<open>c\<close> is a candidate of \<open>cs\<close> within its tolerance, and every
  other candidate of \<open>cs\<close> within its tolerance is farther away.\<close>

definition strictlyNearest :: "SnapCandidate \<Rightarrow> SnapCandidate list \<Rightarrow> bool" where
  "strictlyNearest c cs =
     (c \<in> set cs \<and> matches c \<and> (\<forall>c' \<in> set cs. matches c' \<longrightarrow> c' = c \<or> distance c < distance c'))"


text \<open>
  Nearest match wins: a candidate replaces the best so far when it is within its
  tolerance and strictly nearer than the best distance so far.  \<open>nearestMatch\<close> runs this
  over a list of candidates from a starting bound and the values of an unsnapped axis.
\<close>

definition pick :: "real \<times> (real \<times> bool \<times> real option) \<Rightarrow> SnapCandidate
    \<Rightarrow> real \<times> (real \<times> bool \<times> real option)" where
  "pick best c =
     (if matches c \<and> distance c < fst best then (distance c, (pos c, True, Some (guide c))) else best)"

definition nearestMatch :: "real \<Rightarrow> real \<times> bool \<times> real option \<Rightarrow> SnapCandidate list
    \<Rightarrow> real \<times> bool \<times> real option" where
  "nearestMatch bound unsnapped cs = snd (foldl pick (bound, unsnapped) cs)"





section \<open>Document state and history (model/state)\<close>

record AppState =
  rooms :: "Room list"
  wallOpenings :: "WallOpening list"
  objectDefs :: "ObjectDef list"
  placedObjects :: "PlacedObject list"
  selectedRoomIds :: "string list"
  selectedObjectId :: "string option"
  globalWallThicknessCm :: real
  panX :: real
  panY :: real
  zoom :: real

record HistoryState =
  past :: "AppState list"
  present :: AppState
  future :: "AppState list"

text \<open>
  Modelled from the spec: \<^verbatim>\<open>State.recordHistory\<close>, \<^verbatim>\<open>State.undo\<close> and
  \<^verbatim>\<open>State.redo\<close> of \<^verbatim>\<open>model/state\<close>, which is not among the sources.
  \<open>recordHistory\<close> pushes the previous \<open>present\<close> onto \<open>past\<close>, sets \<open>present\<close> to the
  new state and clears \<open>future\<close>.  \<open>undo\<close> is a no-op if \<open>past\<close> is empty; otherwise it
  pops the most recent \<open>past\<close> entry into \<open>present\<close> and pushes the old \<open>present\<close> onto
  \<open>future\<close>.  \<open>redo\<close> is symmetric.  \<open>past\<close> is oldest first; the head of \<open>future\<close> is
  the state the next redo restores.
\<close>

definition recordHistory :: "HistoryState \<Rightarrow> AppState \<Rightarrow> HistoryState" where
  "recordHistory h newState =
     \<lparr> past = past h @ [present h], present = newState, future = [] \<rparr>"

definition undo :: "HistoryState \<Rightarrow> HistoryState" where
  "undo h =
     (if past h = [] then h
      else \<lparr> past = butlast (past h), present = last (past h), future = present h # future h \<rparr>)"

definition redo :: "HistoryState \<Rightarrow> HistoryState" where
  "redo h =
     (case future h of
        [] \<Rightarrow> h
      | next # rest \<Rightarrow> \<lparr> past = past h @ [present h], present = next, future = rest \<rparr>)"

text \<open>
  Modelled from the spec: \<^verbatim>\<open>State.deleteRoom\<close> of \<^verbatim>\<open>model/state\<close>, which is not
  among the sources.  Entities are destroyed by filtering them out of their list, and
  deleting a room also removes the wall openings and the placed objects that reference
  its id.  The spec says nothing of the selection, which is left as it is.
\<close>

definition deleteRoom :: "AppState \<Rightarrow> string \<Rightarrow> AppState" where
  "deleteRoom st deletedId =
     st\<lparr> rooms := filter (\<lambda>r. Room.ident r \<noteq> deletedId) (rooms st),
         wallOpenings := filter (\<lambda>opening. WallOpening.roomId opening \<noteq> deletedId) (wallOpenings st),
         placedObjects := filter (\<lambda>p. PlacedObject.roomId p \<noteq> deletedId) (placedObjects st) \<rparr>"

text \<open>No dangling reference: every opening and every placed object names a room of the
  state.\<close>

definition noDanglingRefs :: "AppState \<Rightarrow> bool" where
  "noDanglingRefs st =
     ((\<forall>opening \<in> set (wallOpenings st). WallOpening.roomId opening \<in> Room.ident ` set (rooms st)) \<and>
      (\<forall>p \<in> set (placedObjects st). PlacedObject.roomId p \<in> Room.ident ` set (rooms st)))"

section \<open>Editor page (app/page)\<close>

subsection \<open>Rotation-aware bounds of a placed object\<close>

text \<open>The remainder \<^verbatim>\<open>a % b\<close> of JavaScript on finite numbers, \<open>b\<close> not zero: the
  quotient is truncated toward zero.\<close>

definition jsRem :: "real \<Rightarrow> real \<Rightarrow> real" where
  "jsRem a b = a - b * of_int (if 0 \<le> a / b then \<lfloor>a / b\<rfloor> else \<lceil>a / b\<rceil>)"

text \<open>The object \<^verbatim>\<open>{ x, y, w, h }\<close> returned by \<^verbatim>\<open>getVisualBounds\<close>.\<close>

record VisualBounds =
  visX :: real
  visY :: real
  visW :: real
  visH :: real

definition getVisualBounds :: "real \<Rightarrow> real \<Rightarrow> real \<Rightarrow> real \<Rightarrow> real \<Rightarrow> VisualBounds" where
  "getVisualBounds objXCm objYCm origW origH rotation =
     (let isRotated = (jsRem rotation 180 \<noteq> 0) in
      if \<not> isRotated then \<lparr> visX = objXCm, visY = objYCm, visW = origW, visH = origH \<rparr>
      else
      let centerX = fadd objXCm (fdiv origW 2);
          centerY = fadd objYCm (fdiv origH 2);
          newW = origH;
          newH = origW
      in \<lparr> visX = fsub centerX (fdiv newW 2), visY = fsub centerY (fdiv newH 2),
           visW = newW, visH = newH \<rparr>)"

text \<open>\<^verbatim>\<open>visualToStorage\<close> returns \<^verbatim>\<open>{ xCm, yCm }\<close>, here a pair.\<close>

definition visualToStorage :: "real \<Rightarrow> real \<Rightarrow> real \<Rightarrow> real \<Rightarrow> real \<Rightarrow> real \<times> real" where
  "visualToStorage visualX visualY origW origH rotation =
     (let isRotated = (jsRem rotation 180 \<noteq> 0) in
      if \<not> isRotated then (visualX, visualY)
      else
      let newW = origH;
          newH = origW;
          centerX = fadd visualX (fdiv newW 2);
          centerY = fadd visualY (fdiv newH 2)
      in (fsub centerX (fdiv origW 2), fsub centerY (fdiv origH 2)))"

subsection \<open>Pointer handlers\<close>

datatype TargetType = Resize | Placed | RoomDrag

text \<open>\<^verbatim>\<open>ExtendedDragState\<close>; \<open>multiDragRooms\<close> holds id, \<^verbatim>\<open>startXCm\<close> and
  \<^verbatim>\<open>startYCm\<close> of each room.  An absent or empty \<open>resizeHandle\<close> is falsy.\<close>

record ExtendedDragState =
  roomId :: string
  startX :: real
  startY :: real
  roomStartX :: real
  roomStartY :: real
  targetType :: "TargetType option"
  resizeHandle :: "string option"
  initialRoom :: "Room option"
  multiDragRooms :: "(string \<times> real \<times> real) list option"

record PointerSample =
  clientX :: real
  clientY :: real
  pointerId :: nat

text \<open>
  The state of the component that the handlers read and set: \<^verbatim>\<open>history\<close>,
  \<^verbatim>\<open>dragState\<close>, \<^verbatim>\<open>currentSnapResult\<close>, and whether \<^verbatim>\<open>svgRef.current\<close> is set.
  Each handler runs on the state the previous one left.
\<close>

record Editor =
  history :: HistoryState
  dragState :: "ExtendedDragState option"
  currentSnapResult :: "SnapResult option"
  svgAttached :: bool

text \<open>
  What \<^verbatim>\<open>handleSvgPointerMove\<close> computes through \<^verbatim>\<open>model/state\<close> and
  \<^verbatim>\<open>editor/Interaction\<close>, which are not among the sources, is taken as parameters:
  \<open>updateViewport\<close> is \<^verbatim>\<open>State.updateViewport\<close>; \<open>resizeStep\<close> is the state passed to
  \<^verbatim>\<open>updateState\<close> in the resize branch; \<open>placedStep\<close> and \<open>roomStep\<close> are the snap
  result and the state of the placed-object and the room branch, \<open>None\<close> where the branch
  returns early (object, definition or room not found).
\<close>

record MoveDeps =
  updateViewport :: "AppState \<Rightarrow> real \<Rightarrow> real \<Rightarrow> real \<Rightarrow> AppState"
  resizeStep :: "PointerSample \<Rightarrow> ExtendedDragState \<Rightarrow> AppState \<Rightarrow> AppState"
  placedStep :: "PointerSample \<Rightarrow> ExtendedDragState \<Rightarrow> AppState \<Rightarrow> (SnapResult \<times> AppState) option"
  roomStep :: "PointerSample \<Rightarrow> ExtendedDragState \<Rightarrow> AppState \<Rightarrow> (SnapResult \<times> AppState) option"

text \<open>\<^verbatim>\<open>updateState(newState, recordInHistory)\<close>, as the updater given to
  \<^verbatim>\<open>setHistory\<close>.\<close>

definition updateState :: "HistoryState \<Rightarrow> AppState \<Rightarrow> bool \<Rightarrow> HistoryState" where
  "updateState prev newState recordInHistory =
     (if recordInHistory then recordHistory prev newState
      else prev\<lparr> present := newState \<rparr>)"

definition handleSvgPointerMove :: "MoveDeps \<Rightarrow> PointerSample \<Rightarrow> Editor \<Rightarrow> Editor" where
  "handleSvgPointerMove deps e ed =
     (case dragState ed of
        None \<Rightarrow> ed
      | Some ds \<Rightarrow>
          if \<not> svgAttached ed then ed
          else
          let appState = present (history ed) in
          if roomId ds = ''__pan__'' then
            (let deltaX = fsub (clientX e) (startX ds);
                 deltaY = fsub (clientY e) (startY ds);
                 newPanX = fadd (roomStartX ds) deltaX;
                 newPanY = fadd (roomStartY ds) deltaY
             in ed\<lparr> history := updateState (history ed)
                        (updateViewport deps appState newPanX newPanY (zoom appState)) False \<rparr>)
          else if targetType ds = Some Resize \<and> initialRoom ds \<noteq> None
                  \<and> resizeHandle ds \<noteq> None \<and> resizeHandle ds \<noteq> Some [] then
            ed\<lparr> history := updateState (history ed) (resizeStep deps e ds appState) False \<rparr>
          else if targetType ds = Some Placed then
            (case placedStep deps e ds appState of
               None \<Rightarrow> ed
             | Some (snapRes, newState) \<Rightarrow>
                 ed\<lparr> currentSnapResult := Some snapRes,
                     history := updateState (history ed) newState False \<rparr>)
          else if targetType ds = Some RoomDrag
                  \<and> (case multiDragRooms ds of None \<Rightarrow> False | Some rs \<Rightarrow> 0 < length rs) then
            (case roomStep deps e ds appState of
               None \<Rightarrow> ed
             | Some (snap, newState) \<Rightarrow>
                 ed\<lparr> currentSnapResult := Some snap,
                     history := updateState (history ed) newState False \<rparr>)
          else ed)"

text \<open>\<^verbatim>\<open>handleSvgPointerUp\<close>; releasing the pointer capture changes nothing of the
  state kept here.\<close>

definition handleSvgPointerUp :: "PointerSample \<Rightarrow> Editor \<Rightarrow> Editor" where
  "handleSvgPointerUp e ed =
     (let appState = present (history ed);
          recorded =
            (case dragState ed of
               None \<Rightarrow> history ed
             | Some ds \<Rightarrow>
                 if roomId ds \<noteq> ''__pan__''
                 then recordHistory ((history ed)\<lparr> present := appState \<rparr>) appState
                 else history ed)
      in ed\<lparr> history := recorded, dragState := None, currentSnapResult := None \<rparr>)"

text \<open>The bindings of the \<^verbatim>\<open>svg\<close> element: \<^verbatim>\<open>onPointerMove\<close> is
  \<^verbatim>\<open>handleSvgPointerMove\<close>; \<^verbatim>\<open>onPointerUp\<close>, \<^verbatim>\<open>onPointerCancel\<close> and
  \<^verbatim>\<open>onPointerLeave\<close> are all \<^verbatim>\<open>handleSvgPointerUp\<close>.\<close>

datatype SvgEvent =
    PointerMove PointerSample
  | PointerUp PointerSample
  | PointerCancel PointerSample
  | PointerLeave PointerSample

fun onSvgEvent :: "MoveDeps \<Rightarrow> SvgEvent \<Rightarrow> Editor \<Rightarrow> Editor" where
  "onSvgEvent deps (PointerMove e) ed = handleSvgPointerMove deps e ed"
| "onSvgEvent deps (PointerUp e) ed = handleSvgPointerUp e ed"
| "onSvgEvent deps (PointerCancel e) ed = handleSvgPointerUp e ed"
| "onSvgEvent deps (PointerLeave e) ed = handleSvgPointerUp e ed"

text \<open>A run of pointer-move events, oldest first.\<close>

definition afterMoves :: "MoveDeps \<Rightarrow> PointerSample list \<Rightarrow> Editor \<Rightarrow> Editor" where
  "afterMoves deps samples ed = foldl (\<lambda>s e. onSvgEvent deps (PointerMove e) s) ed samples"

section \<open>Example rooms\<close>

text \<open>Rooms for the concrete instances below: a 100 by 100 room that is dragged, and two
  neighbours 5 cm apart, all with the global wall thickness.\<close>

definition exMoving :: Room where
  "exMoving = \<lparr> Room.ident = ''R'', name = ''moving'', xCm = 0, yCm = 0, widthCm = 100, heightCm = 100,
                 wallThickness = None \<rparr>"

definition exFirst :: Room where
  "exFirst = \<lparr> Room.ident = ''N1'', name = ''first'', xCm = 200, yCm = 200, widthCm = 100, heightCm = 100,
                wallThickness = None \<rparr>"

definition exSecond :: Room where
  "exSecond = \<lparr> Room.ident = ''N2'', name = ''second'', xCm = 205, yCm = 205, widthCm = 100, heightCm = 100,
                 wallThickness = None \<rparr>"

text \<open>A neighbour far from everything, and one whose \<open>x\<close> is the double written
  \<^verbatim>\<open>0.2\<close>.\<close>

definition exAway :: Room where
  "exAway = \<lparr> Room.ident = ''far'', name = ''away'', xCm = 5000, yCm = 5000, widthCm = 100, heightCm = 100,
               wallThickness = None \<rparr>"

definition exFifth :: Room where
  "exFifth = \<lparr> Room.ident = ''N5'', name = ''fifth'', xCm = rd (1 / 5), yCm = 5000, widthCm = 100,
                heightCm = 100, wallThickness = None \<rparr>"

text \<open>A room 152.6 wide with an east wall of 12.1, its target \<^verbatim>\<open>113.3\<close>, and a
  neighbour at 293.\<close>

definition exWide :: Room where
  "exWide = \<lparr> Room.ident = ''W'', name = ''wide'', xCm = 0, yCm = 0, widthCm = rd (763 / 5), heightCm = 100,
               wallThickness = Some \<lparr> WallThickness.north = None, south = None,
                                      east = Some (rd (121 / 10)), west = None \<rparr> \<rparr>"

definition exAt293 :: Room where
  "exAt293 = \<lparr> Room.ident = ''N'', name = ''neighbour'', xCm = 293, yCm = 5000, widthCm = 100, heightCm = 100,
                wallThickness = None \<rparr>"

definition exTarget :: real where
  "exTarget = rd (1133 / 10)"

text \<open>The rooms of the specification's example: \<open>A\<close> at (0, 0), 300 by 400, with 10 cm
  walls on all sides, and a room \<open>B\<close> dragged toward its east side.\<close>

definition exRoomA :: Room where
  "exRoomA = \<lparr> Room.ident = ''A'', name = ''A'', xCm = 0, yCm = 0, widthCm = 300, heightCm = 400,
                wallThickness = Some \<lparr> WallThickness.north = Some 10, south = Some 10,
                                       east = Some 10, west = Some 10 \<rparr> \<rparr>"

definition exRoomB :: Room where
  "exRoomB = \<lparr> Room.ident = ''B'', name = ''B'', xCm = 500, yCm = 0, widthCm = 200, heightCm = 200,
                wallThickness = None \<rparr>"

text \<open>A room with a west wall of 212.002, dragged toward the east side of \<open>A\<close>.\<close>

definition exThick :: Room where
  "exThick = \<lparr> Room.ident = ''T'', name = ''thick'', xCm = 900, yCm = 0, widthCm = 200, heightCm = 200,
                wallThickness = Some \<lparr> WallThickness.north = None, south = None, east = None,
                                       west = Some (rd (212002 / 1000)) \<rparr> \<rparr>"

text \<open>A document with the two rooms, an opening and a placed object in each.\<close>

definition exOpeningA :: WallOpening where
  "exOpeningA = \<lparr> WallOpening.ident = ''o1'', roomId = ''A'', wall = East, positionCm = 50,
                   widthCm = 90, openingType = Door \<rparr>"

definition exOpeningB :: WallOpening where
  "exOpeningB = \<lparr> WallOpening.ident = ''o2'', roomId = ''B'', wall = North, positionCm = 20,
                   widthCm = 120, openingType = Window \<rparr>"

definition exPlacedA :: PlacedObject where
  "exPlacedA = \<lparr> PlacedObject.ident = ''p1'', defId = ''d1'', roomId = ''A'', xCm = 30, yCm = 40,
                  rotationDeg = Some 90 \<rparr>"

definition exPlacedB :: PlacedObject where
  "exPlacedB = \<lparr> PlacedObject.ident = ''p2'', defId = ''d1'', roomId = ''B'', xCm = 520, yCm = 40,
                  rotationDeg = None \<rparr>"

definition exState :: AppState where
  "exState = \<lparr> rooms = [exRoomA, exRoomB], wallOpenings = [exOpeningA, exOpeningB],
                objectDefs = [\<lparr> ObjectDef.ident = ''d1'', name = ''table'', widthCm = 60, heightCm = 40 \<rparr>],
                placedObjects = [exPlacedA, exPlacedB], selectedRoomIds = [], selectedObjectId = None,
                globalWallThicknessCm = 10, panX = 0, panY = 0, zoom = 1 \<rparr>"





text \<open>A drag of room \<open>B\<close> in progress: the room branch of the move handler puts the room
  at the pointer.\<close>

definition exDeps :: MoveDeps where
  "exDeps = \<lparr> updateViewport = (\<lambda>st x y z. st\<lparr> panX := x, panY := y, zoom := z \<rparr>),
               resizeStep = (\<lambda>e ds st. st),
               placedStep = (\<lambda>e ds st. None),
               roomStep = (\<lambda>e ds st.
                 Some (\<lparr> xCm = clientX e, yCm = clientY e, snappedX = False, snappedY = False,
                          xGuideCm = None, yGuideCm = None \<rparr>,
                       st\<lparr> rooms := map (\<lambda>r. if Room.ident r = roomId ds
                                                then r\<lparr> Room.xCm := clientX e, Room.yCm := clientY e \<rparr>
                                                else r) (rooms st) \<rparr>)) \<rparr>"

definition exDrag :: ExtendedDragState where
  "exDrag = \<lparr> roomId = ''B'', startX = 0, startY = 0, roomStartX = 500, roomStartY = 0,
               targetType = Some RoomDrag, resizeHandle = None, initialRoom = None,
               multiDragRooms = Some [(''B'', 500, 0)] \<rparr>"

definition exEditor :: Editor where
  "exEditor = \<lparr> history = \<lparr> past = [], present = exState, future = [] \<rparr>, dragState = Some exDrag,
                 currentSnapResult = None, svgAttached = True \<rparr>"

definition exSample :: "real \<Rightarrow> PointerSample" where
  "exSample x = \<lparr> clientX = x, clientY = 0, pointerId = 1 \<rparr>"

section \<open>Rounding\<close>

lemma expo_le:
  assumes "0 < a"
  shows "2 powi (expo a) \<le> a"
proof (cases "1 \<le> a")
  case True
  then have pos: "0 < \<lfloor>a\<rfloor>" by simp
  have b: "(2::int) ^ nat (bitlen \<lfloor>a\<rfloor> - 1) \<le> \<lfloor>a\<rfloor>" using bitlen_bounds[OF pos] by simp
  have "real_of_int (2 ^ nat (bitlen \<lfloor>a\<rfloor> - 1)) \<le> real_of_int \<lfloor>a\<rfloor>"
    using b by (simp only: of_int_le_iff)
  moreover have "real_of_int \<lfloor>a\<rfloor> \<le> a" by simp
  ultimately have "real_of_int (2 ^ nat (bitlen \<lfloor>a\<rfloor> - 1)) \<le> a" by (rule order_trans)
  then have p: "(2::real) ^ nat (bitlen \<lfloor>a\<rfloor> - 1) \<le> a" by simp
  have "1 \<le> bitlen \<lfloor>a\<rfloor>" using pos by (simp add: bitlen_alt_def)
  then have "2 powi (bitlen \<lfloor>a\<rfloor> - 1) = (2::real) ^ nat (bitlen \<lfloor>a\<rfloor> - 1)"
    by (simp add: power_int_nonneg_exp)
  then show ?thesis using True p by (simp add: expo_def)
next
  case False
  then have inv: "1 < 1 / a" using assms by simp
  let ?n = "\<lceil>1 / a\<rceil> - 1"
  have pos: "0 < ?n" using inv by linarith
  have "?n < 2 ^ nat (bitlen ?n)" using bitlen_bounds[OF pos] by simp
  then have c: "\<lceil>1 / a\<rceil> \<le> 2 ^ nat (bitlen ?n)" by linarith
  have "real_of_int \<lceil>1 / a\<rceil> \<le> real_of_int (2 ^ nat (bitlen ?n))"
    using c by (simp only: of_int_le_iff)
  moreover have "1 / a \<le> real_of_int \<lceil>1 / a\<rceil>" by simp
  ultimately have "1 / a \<le> real_of_int (2 ^ nat (bitlen ?n))" by (rule order_trans[rotated])
  then have "1 / a \<le> 2 ^ nat (bitlen ?n)" by simp
  then have "1 / 2 ^ nat (bitlen ?n) \<le> a" using assms
    by (simp add: field_simps)
  moreover have "2 powi (- bitlen ?n) = 1 / (2::real) ^ nat (bitlen ?n)"
    using bitlen_nonneg[of ?n] by (simp add: power_int_minus_divide power_int_nonneg_exp)
  ultimately show ?thesis using False by (simp add: expo_def)
qed

lemma roundEven_of_int: "roundEven (of_int k) = k"
  by (simp add: roundEven_def)

lemma rd_on_grid:
  assumes "x / ulp x = of_int k"
  shows "rd x = x"
proof (cases "x = 0")
  case True
  then show ?thesis by (simp add: rd_def)
next
  case False
  have "ulp x \<noteq> 0" by (simp add: ulp_def)
  then have "x = of_int k * ulp x" using assms by (simp add: field_simps)
  then show ?thesis using False assms by (simp add: rd_def roundEven_of_int)
qed

lemma rd_half_exact:
  assumes "2 * x = of_int k" "\<bar>x\<bar> < 2 ^ 52"
  shows "rd x = x"
proof (cases "x = 0")
  case True
  then show ?thesis by (simp add: rd_def)
next
  case False
  let ?e = "expo \<bar>x\<bar>"
  let ?j = "max (?e - 52) (- 1074)"
  have "2 powi ?e \<le> \<bar>x\<bar>" using expo_le[of "\<bar>x\<bar>"] False by simp
  then have "(2::real) powi ?e < 2 powi 52" using assms(2) by simp
  then have "?e < 52" by (rule power_int_le_imp_less_exp[rotated]) simp_all
  then have j: "?j \<le> - 1" by simp
  then have nn: "0 \<le> - ?j - 1" by simp
  have "x / ulp x = x * 2 powi (- ?j)" by (simp add: ulp_def power_int_minus field_simps)
  also have "\<dots> = x * (2 powi 1 * 2 powi (- ?j - 1))"
    using power_int_add[of "2::real" 1 "- ?j - 1"] by simp
  also have "\<dots> = (2 * x) * 2 ^ nat (- ?j - 1)"
    using nn by (simp add: power_int_nonneg_exp)
  also have "\<dots> = of_int (k * 2 ^ nat (- ?j - 1))" using assms(1) by simp
  finally show ?thesis by (rule rd_on_grid)
qed

lemma rd_int_exact: "\<bar>real_of_int k\<bar> < 2 ^ 52 \<Longrightarrow> rd (of_int k) = of_int k"
  using rd_half_exact[of "of_int k" "2 * k"] by simp

lemma rd_whole:
  assumes "of_int \<lfloor>x\<rfloor> = x" "\<bar>x\<bar> < 2 ^ 52"
  shows "rd x = x"
proof -
  have "2 * x = 2 * real_of_int \<lfloor>x\<rfloor>" by (simp only: assms(1))
  then have "2 * x = of_int (2 * \<lfloor>x\<rfloor>)" by (simp only: of_int_mult of_int_numeral)
  then show ?thesis using assms(2) by (rule rd_half_exact)
qed

lemma roundEven_near: "\<bar>real_of_int (roundEven t) - t\<bar> \<le> 1 / 2"
proof -
  have "real_of_int \<lfloor>t\<rfloor> \<le> t" "t < real_of_int \<lfloor>t\<rfloor> + 1" by linarith+
  then show ?thesis by (auto simp: roundEven_def Let_def)
qed

lemma rd_near:
  assumes "\<bar>x\<bar> \<le> 8000000"
  shows "\<bar>rd x - x\<bar> \<le> 1 / 2 ^ 31"
proof (cases "x = 0")
  case True
  then show ?thesis by (simp add: rd_def)
next
  case False
  let ?e = "expo \<bar>x\<bar>"
  let ?j = "max (?e - 52) (- 1074)"
  have "2 powi ?e \<le> \<bar>x\<bar>" using expo_le[of "\<bar>x\<bar>"] False by simp
  then have "(2::real) powi ?e < 2 powi 23" using assms by simp
  then have "?e < 23" by (rule power_int_le_imp_less_exp[rotated]) simp_all
  then have "?j \<le> - 30" by simp
  then have "(2::real) powi ?j \<le> 2 powi (- 30)" by (rule power_int_increasing) simp
  then have u: "ulp x \<le> 1 / 2 ^ 30" by (simp add: ulp_def power_int_minus_divide)
  have upos: "0 < ulp x" by (simp add: ulp_def)
  let ?t = "x / ulp x"
  have "rd x - x = (real_of_int (roundEven ?t) - ?t) * ulp x"
    using False upos by (simp add: rd_def field_simps)
  then have "\<bar>rd x - x\<bar> = \<bar>real_of_int (roundEven ?t) - ?t\<bar> * ulp x"
    using upos by (simp add: abs_mult)
  also have "\<dots> \<le> (1 / 2) * ulp x"
    using roundEven_near[of ?t] upos by (intro mult_right_mono) simp_all
  also have "\<dots> \<le> (1 / 2) * (1 / 2 ^ 30)" using u by simp
  finally show ?thesis by simp
qed

lemmas rd_eval = rd_def ulp_def expo_def roundEven_def compute_bitlen Let_def

section \<open>Room snapping: first match per axis\<close>

lemmas snap_eval = calculateSnap_def snapXBody_def snapYBody_def outerBoundsCm_def innerBoundsCm_def
  getWallThicknessCm_def sideOr_def WALL_SNAP_TOLERANCE_CM_def SNAP_TOLERANCE_CM_def Let_def
  fadd_def fsub_def rd_whole

lemma find_app:
  "find P (xs @ ys) = (case find P xs of None \<Rightarrow> find P ys | Some x \<Rightarrow> Some x)"
  by (induction xs) simp_all

lemma firstMatch_append:
  "firstMatch u (cs @ ds) = (if find matches cs = None then firstMatch u ds else firstMatch u cs)"
  by (simp add: firstMatch_def find_app split: option.splits)

lemma snapXBody_yPart: "yPart (snapXBody mr mo g other s) = yPart s"
  by (simp add: snapXBody_def yPart_def Let_def)

lemma snapYBody_xPart: "xPart (snapYBody mr mo g other s) = xPart s"
  by (simp add: snapYBody_def xPart_def Let_def)

lemma snapXBody_xPart:
  "xPart (snapXBody mr mo g other s) =
     (if snappedX s then xPart s else firstMatch (xPart s) (xCandidates mr mo g other))"
  by (simp add: snapXBody_def xPart_def firstMatch_def xCandidates_def matches_def Let_def)

lemma snapYBody_yPart:
  "yPart (snapYBody mr mo g other s) =
     (if snappedY s then yPart s else firstMatch (yPart s) (yCandidates mr mo g other))"
  by (simp add: snapYBody_def yPart_def firstMatch_def yCandidates_def matches_def Let_def)

lemma snapLoop_xPart:
  "xPart (snapLoop mr mo g others s) =
     (if snappedX s then xPart s
      else firstMatch (xPart s) (concat (map (xCandidates mr mo g) others)))"
proof (induction others arbitrary: s)
  case Nil
  show ?case by (simp add: firstMatch_def)
next
  case (Cons other rest)
  let ?s' = "snapYBody mr mo g other (snapXBody mr mo g other s)"
  have x': "xPart ?s' = (if snappedX s then xPart s else firstMatch (xPart s) (xCandidates mr mo g other))"
    by (simp add: snapYBody_xPart snapXBody_xPart)
  have sx': "snappedX ?s' = (snappedX s \<or> find matches (xCandidates mr mo g other) \<noteq> None)"
    using x' by (auto simp: xPart_def firstMatch_def split: option.splits if_splits)
  show ?case
  proof (cases "snappedX s")
    case True
    then show ?thesis using Cons.IH[of ?s'] x' sx' by (simp add: Let_def)
  next
    case False
    show ?thesis
    proof (cases "find matches (xCandidates mr mo g other)")
      case None
      then have "xPart ?s' = xPart s" "\<not> snappedX ?s'" using False x' sx' by (simp_all add: firstMatch_def)
      then show ?thesis using Cons.IH[of ?s'] False None
        by (simp add: Let_def firstMatch_append)
    next
      case (Some c)
      then have "xPart ?s' = firstMatch (xPart s) (xCandidates mr mo g other)" "snappedX ?s'"
        using False x' sx' by simp_all
      then show ?thesis using Cons.IH[of ?s'] False Some
        by (simp add: Let_def firstMatch_append)
    qed
  qed
qed

lemma snapLoop_yPart:
  "yPart (snapLoop mr mo g others s) =
     (if snappedY s then yPart s
      else firstMatch (yPart s) (concat (map (yCandidates mr mo g) others)))"
proof (induction others arbitrary: s)
  case Nil
  show ?case by (simp add: firstMatch_def)
next
  case (Cons other rest)
  let ?s' = "snapYBody mr mo g other (snapXBody mr mo g other s)"
  have y': "yPart ?s' = (if snappedY s then yPart s else firstMatch (yPart s) (yCandidates mr mo g other))"
  proof -
    have "snappedY (snapXBody mr mo g other s) = snappedY s"
      using snapXBody_yPart[of mr mo g other s] by (simp add: yPart_def)
    then show ?thesis by (simp add: snapYBody_yPart snapXBody_yPart)
  qed
  have sy': "snappedY ?s' = (snappedY s \<or> find matches (yCandidates mr mo g other) \<noteq> None)"
    using y' by (auto simp: yPart_def firstMatch_def split: option.splits if_splits)
  show ?case
  proof (cases "snappedY s")
    case True
    then show ?thesis using Cons.IH[of ?s'] y' sy' by (simp add: Let_def)
  next
    case False
    show ?thesis
    proof (cases "find matches (yCandidates mr mo g other)")
      case None
      then have "yPart ?s' = yPart s" "\<not> snappedY ?s'" using False y' sy' by (simp_all add: firstMatch_def)
      then show ?thesis using Cons.IH[of ?s'] False None
        by (simp add: Let_def firstMatch_append)
    next
      case (Some c)
      then have "yPart ?s' = firstMatch (yPart s) (yCandidates mr mo g other)" "snappedY ?s'"
        using False y' sy' by simp_all
      then show ?thesis using Cons.IH[of ?s'] False Some
        by (simp add: Let_def firstMatch_append)
    qed
  qed
qed

lemma calculateSnap_xPart:
  "xPart (calculateSnap R rs tx ty g) = firstMatch (tx, False, None) (allXCandidates R rs tx ty g)"
  unfolding calculateSnap_def Let_def allXCandidates_def othersOf_def
  by (subst snapLoop_xPart) (simp add: xPart_def)

lemma calculateSnap_yPart:
  "yPart (calculateSnap R rs tx ty g) = firstMatch (ty, False, None) (allYCandidates R rs tx ty g)"
  unfolding calculateSnap_def Let_def allYCandidates_def othersOf_def
  by (subst snapLoop_yPart) (simp add: yPart_def)

lemma SnapResult_eq_parts:
  fixes s t :: SnapResult
  shows "s = t \<longleftrightarrow> xPart s = xPart t \<and> yPart s = yPart t"
  by (cases s, cases t) (auto simp: xPart_def yPart_def)

lemma xCandidates_target_y:
  "xCandidates R (outerBoundsCm R g (Some tx) (Some ty)) g other
     = xCandidates R (outerBoundsCm R g (Some tx) (Some ty')) g other"
  by (simp add: xCandidates_def outerBoundsCm_def Let_def)

lemma yCandidates_target_x:
  "yCandidates R (outerBoundsCm R g (Some tx) (Some ty)) g other
     = yCandidates R (outerBoundsCm R g (Some tx') (Some ty)) g other"
  by (simp add: yCandidates_def outerBoundsCm_def Let_def)

lemma allXCandidates_target_y:
  "allXCandidates R rs tx ty g = allXCandidates R rs tx ty' g"
  unfolding allXCandidates_def
  by (rule arg_cong[where f = concat], rule map_cong[OF refl]) (rule xCandidates_target_y)

lemma allYCandidates_target_x:
  "allYCandidates R rs tx ty g = allYCandidates R rs tx' ty g"
  unfolding allYCandidates_def
  by (rule arg_cong[where f = concat], rule map_cong[OF refl]) (rule yCandidates_target_x)

lemma allXCandidates_append:
  "allXCandidates R (pre @ rest) tx ty g = allXCandidates R pre tx ty g @ allXCandidates R rest tx ty g"
  by (simp add: allXCandidates_def othersOf_def)

lemma allYCandidates_append:
  "allYCandidates R (pre @ rest) tx ty g = allYCandidates R pre tx ty g @ allYCandidates R rest tx ty g"
  by (simp add: allYCandidates_def othersOf_def)

lemma snappedX_iff:
  "snappedX (calculateSnap R rs tx ty g) \<longleftrightarrow> find matches (allXCandidates R rs tx ty g) \<noteq> None"
  using calculateSnap_xPart[of R rs tx ty g]
  by (auto simp: xPart_def firstMatch_def split: option.splits)

lemma snappedY_iff:
  "snappedY (calculateSnap R rs tx ty g) \<longleftrightarrow> find matches (allYCandidates R rs tx ty g) \<noteq> None"
  using calculateSnap_yPart[of R rs tx ty g]
  by (auto simp: yPart_def firstMatch_def split: option.splits)

lemma xPart_stable:
  "snappedX (calculateSnap R pre tx ty g) \<Longrightarrow>
   xPart (calculateSnap R (pre @ rest) tx ty g) = xPart (calculateSnap R pre tx ty g)"
  by (auto simp: calculateSnap_xPart allXCandidates_append firstMatch_append snappedX_iff)

lemma yPart_stable:
  "snappedY (calculateSnap R pre tx ty g) \<Longrightarrow>
   yPart (calculateSnap R (pre @ rest) tx ty g) = yPart (calculateSnap R pre tx ty g)"
  by (auto simp: calculateSnap_yPart allYCandidates_append firstMatch_append snappedY_iff)

text \<open>
  C5.  On each axis \<^verbatim>\<open>calculateSnap\<close> returns the first candidate within its tolerance,
  the candidates taken neighbour by neighbour in list order and, for one neighbour, in
  priority order: the two wall-overlap candidates (15 cm) before the two outer-edge
  alignments (2 cm).  Once an axis has snapped against the rooms seen so far, no later
  room changes that axis; once both have snapped the result is final, and the loop leaves
  at the \<^verbatim>\<open>break\<close> without looking at the remaining rooms.
\<close>

theorem calculateSnap_first_match_per_axis:
  "xPart (calculateSnap R rs tx ty g) = firstMatch (tx, False, None) (allXCandidates R rs tx ty g)
   \<and> yPart (calculateSnap R rs tx ty g) = firstMatch (ty, False, None) (allYCandidates R rs tx ty g)
   \<and> (snappedX (calculateSnap R pre tx ty g) \<longrightarrow>
        xPart (calculateSnap R (pre @ rest) tx ty g) = xPart (calculateSnap R pre tx ty g))
   \<and> (snappedY (calculateSnap R pre tx ty g) \<longrightarrow>
        yPart (calculateSnap R (pre @ rest) tx ty g) = yPart (calculateSnap R pre tx ty g))
   \<and> (snappedX (calculateSnap R pre tx ty g) \<and> snappedY (calculateSnap R pre tx ty g) \<longrightarrow>
        calculateSnap R (pre @ rest) tx ty g = calculateSnap R pre tx ty g)
   \<and> (let s' = snapYBody R mo g other (snapXBody R mo g other s)
      in snappedX s' \<and> snappedY s' \<longrightarrow> snapLoop R mo g (other # rest) s = s')"
proof -
  have both: "snappedX (calculateSnap R pre tx ty g) \<and> snappedY (calculateSnap R pre tx ty g) \<longrightarrow>
        calculateSnap R (pre @ rest) tx ty g = calculateSnap R pre tx ty g"
    using xPart_stable[of R pre tx ty g rest] yPart_stable[of R pre tx ty g rest]
    by (simp add: SnapResult_eq_parts)
  show ?thesis
    using both xPart_stable[of R pre tx ty g rest] yPart_stable[of R pre tx ty g rest]
      calculateSnap_xPart[of R rs tx ty g] calculateSnap_yPart[of R rs tx ty g]
    by (simp add: Let_def)
qed

theorem calculateSnap_first_match_per_axis_witness:
  "snappedX (calculateSnap exMoving [exFirst] 93 93 10)
   \<and> snappedY (calculateSnap exMoving [exFirst] 93 93 10)
   \<and> calculateSnap exMoving ([exFirst] @ [exSecond]) 93 93 10 = calculateSnap exMoving [exFirst] 93 93 10
   \<and> xCm (calculateSnap exMoving ([exFirst] @ [exSecond]) 93 93 10) = 90"
  using calculateSnap_first_match_per_axis
    [where R = exMoving and pre = "[exFirst]" and rest = "[exSecond]" and tx = 93 and ty = 93 and g = 10
       and rs = "[exFirst, exSecond]" and other = exFirst
       and mo = "outerBoundsCm exMoving 10 (Some 93) (Some 93)"
       and s = "\<lparr> xCm = 93, yCm = 93, snappedX = False, snappedY = False, xGuideCm = None, yGuideCm = None \<rparr>"]
  by (simp add: snap_eval exMoving_def exFirst_def)

text \<open>
  C6.  Two calls of \<^verbatim>\<open>calculateSnap\<close> that differ only in \<^verbatim>\<open>targetXCm\<close> return the
  same \<^verbatim>\<open>yCm\<close>, \<^verbatim>\<open>snappedY\<close> and \<^verbatim>\<open>yGuideCm\<close>; two calls that differ only in
  \<^verbatim>\<open>targetYCm\<close> return the same \<^verbatim>\<open>xCm\<close>, \<^verbatim>\<open>snappedX\<close> and \<^verbatim>\<open>xGuideCm\<close>.
\<close>

theorem calculateSnap_axes_independent:
  "yCm (calculateSnap R rs tx ty g) = yCm (calculateSnap R rs tx' ty g)
   \<and> snappedY (calculateSnap R rs tx ty g) = snappedY (calculateSnap R rs tx' ty g)
   \<and> yGuideCm (calculateSnap R rs tx ty g) = yGuideCm (calculateSnap R rs tx' ty g)
   \<and> xCm (calculateSnap R rs tx ty g) = xCm (calculateSnap R rs tx ty' g)
   \<and> snappedX (calculateSnap R rs tx ty g) = snappedX (calculateSnap R rs tx ty' g)
   \<and> xGuideCm (calculateSnap R rs tx ty g) = xGuideCm (calculateSnap R rs tx ty' g)"
proof -
  have y: "yPart (calculateSnap R rs tx ty g) = yPart (calculateSnap R rs tx' ty g)"
    using allYCandidates_target_x[of R rs tx ty g tx'] by (simp add: calculateSnap_yPart)
  have x: "xPart (calculateSnap R rs tx ty g) = xPart (calculateSnap R rs tx ty' g)"
    using allXCandidates_target_y[of R rs tx ty g ty'] by (simp add: calculateSnap_xPart)
  show ?thesis using x y by (simp add: xPart_def yPart_def)
qed

section \<open>Room snapping: how far a snap moves\<close>

lemma rdErr_small: "0 < rdErr" "rdErr \<le> 1" "5 * rdErr \<le> 1 / 10 ^ 8"
  by (simp_all add: rdErr_def)

lemma fadd_near:
  assumes "\<bar>a\<bar> \<le> A" "\<bar>b\<bar> \<le> B" "A + B \<le> 8000000"
  shows "\<bar>fadd a b - (a + b)\<bar> \<le> rdErr" "\<bar>fadd a b\<bar> \<le> A + B + 1"
proof -
  have "\<bar>a + b\<bar> \<le> 8000000" using assms by linarith
  then show e: "\<bar>fadd a b - (a + b)\<bar> \<le> rdErr" unfolding fadd_def rdErr_def by (rule rd_near)
  show "\<bar>fadd a b\<bar> \<le> A + B + 1" using e assms rdErr_small(2) by linarith
qed

lemma fsub_near:
  assumes "\<bar>a\<bar> \<le> A" "\<bar>b\<bar> \<le> B" "A + B \<le> 8000000"
  shows "\<bar>fsub a b - (a - b)\<bar> \<le> rdErr" "\<bar>fsub a b\<bar> \<le> A + B + 1"
proof -
  have "\<bar>a - b\<bar> \<le> 8000000" using assms by linarith
  then show e: "\<bar>fsub a b - (a - b)\<bar> \<le> rdErr" unfolding fsub_def rdErr_def by (rule rd_near)
  show "\<bar>fsub a b\<bar> \<le> A + B + 1" using e assms rdErr_small(2) by linarith
qed

text \<open>Shape of the candidates that snap a far edge: returned coordinate \<open>(L - W) - E\<close>, tested
  distance \<open>((t + W) + E) - L\<close>.\<close>

lemma far_edge_near:
  assumes "planCm t" "planCm W" "planCm E" "\<bar>L\<bar> \<le> 3000002"
  shows "\<bar>\<bar>fsub (fsub L W) E - t\<bar> - \<bar>fsub (fadd (fadd t W) E) L\<bar>\<bar> \<le> 5 * rdErr"
proof -
  have t: "\<bar>t\<bar> \<le> 1000000" and W: "\<bar>W\<bar> \<le> 1000000" and E: "\<bar>E\<bar> \<le> 1000000"
    using assms by (simp_all add: planCm_def)
  have a1: "\<bar>fadd t W - (t + W)\<bar> \<le> rdErr" and a2: "\<bar>fadd t W\<bar> \<le> 2000001"
    using fadd_near[OF t W] by simp_all
  have b1: "\<bar>fadd (fadd t W) E - (fadd t W + E)\<bar> \<le> rdErr"
    and b2: "\<bar>fadd (fadd t W) E\<bar> \<le> 3000002" using fadd_near[OF a2 E] by simp_all
  have d1: "\<bar>fsub (fadd (fadd t W) E) L - (fadd (fadd t W) E - L)\<bar> \<le> rdErr"
    using fsub_near[OF b2 assms(4)] by simp
  have p1: "\<bar>fsub L W - (L - W)\<bar> \<le> rdErr" and p2: "\<bar>fsub L W\<bar> \<le> 4000003"
    using fsub_near[OF assms(4) W] by simp_all
  have q1: "\<bar>fsub (fsub L W) E - (fsub L W - E)\<bar> \<le> rdErr"
    using fsub_near[OF p2 E] by simp
  show ?thesis using a1 b1 d1 p1 q1 by linarith
qed

text \<open>Shape of the candidates that snap a near edge: returned coordinate \<open>L + w\<close>, tested
  distance \<open>(t - w) - L\<close>.\<close>

lemma near_edge_near:
  assumes "planCm t" "planCm w0" "\<bar>L\<bar> \<le> 3000002"
  shows "\<bar>\<bar>fadd L w0 - t\<bar> - \<bar>fsub (fsub t w0) L\<bar>\<bar> \<le> 5 * rdErr"
proof -
  have t: "\<bar>t\<bar> \<le> 1000000" and w: "\<bar>w0\<bar> \<le> 1000000"
    using assms by (simp_all add: planCm_def)
  have a1: "\<bar>fsub t w0 - (t - w0)\<bar> \<le> rdErr" and a2: "\<bar>fsub t w0\<bar> \<le> 2000001"
    using fsub_near[OF t w] by simp_all
  have d1: "\<bar>fsub (fsub t w0) L - (fsub t w0 - L)\<bar> \<le> rdErr"
    using fsub_near[OF a2 assms(3)] by simp
  have p1: "\<bar>fadd L w0 - (L + w0)\<bar> \<le> rdErr"
    using fadd_near[OF assms(3) w] by simp
  show ?thesis using a1 d1 p1 rdErr_small(1) by linarith
qed

lemma fadd_exact:
  assumes "a \<in> \<int>" "b \<in> \<int>" "\<bar>a\<bar> \<le> A" "\<bar>b\<bar> \<le> B" "A + B \<le> 2 ^ 51"
  shows "fadd a b = a + b" "a + b \<in> \<int>" "\<bar>a + b\<bar> \<le> A + B"
proof -
  show i: "a + b \<in> \<int>" using assms(1,2) by simp
  show b: "\<bar>a + b\<bar> \<le> A + B" using assms(3,4) by linarith
  have "\<bar>a + b\<bar> < 2 ^ 52" using b assms(5) by simp
  moreover have "of_int \<lfloor>a + b\<rfloor> = a + b" using i by (auto elim: Ints_cases)
  ultimately show "fadd a b = a + b" unfolding fadd_def by (rule rd_whole[rotated])
qed

lemma fsub_exact:
  assumes "a \<in> \<int>" "b \<in> \<int>" "\<bar>a\<bar> \<le> A" "\<bar>b\<bar> \<le> B" "A + B \<le> 2 ^ 51"
  shows "fsub a b = a - b" "a - b \<in> \<int>" "\<bar>a - b\<bar> \<le> A + B"
proof -
  show i: "a - b \<in> \<int>" using assms(1,2) by simp
  show b: "\<bar>a - b\<bar> \<le> A + B" using assms(3,4) by linarith
  have "\<bar>a - b\<bar> < 2 ^ 52" using b assms(5) by simp
  moreover have "of_int \<lfloor>a - b\<rfloor> = a - b" using i by (auto elim: Ints_cases)
  ultimately show "fsub a b = a - b" unfolding fsub_def by (rule rd_whole[rotated])
qed

lemma wholeCmD: "wholeCm x \<Longrightarrow> x \<in> \<int> \<and> \<bar>x\<bar> \<le> 2 ^ 40"
  by (auto simp: wholeCm_def Ints_def)

lemma far_edge_exact:
  assumes "wholeCm t" "wholeCm W" "wholeCm E" "L \<in> \<int>" "\<bar>L\<bar> \<le> 3 * 2 ^ 40"
  shows "\<bar>fsub (fsub L W) E - t\<bar> = \<bar>fsub (fadd (fadd t W) E) L\<bar>"
    and "fadd (fadd (fsub (fsub L W) E) W) E = L"
proof -
  have t: "t \<in> \<int>" "\<bar>t\<bar> \<le> 2 ^ 40" and W: "W \<in> \<int>" "\<bar>W\<bar> \<le> 2 ^ 40"
    and E: "E \<in> \<int>" "\<bar>E\<bar> \<le> 2 ^ 40"
    using assms(1-3) wholeCmD by blast+
  note a = fadd_exact[OF t(1) W(1) t(2) W(2)]
  have a1: "fadd t W = t + W" and a2: "t + W \<in> \<int>" and a3: "\<bar>t + W\<bar> \<le> 2 ^ 40 + 2 ^ 40"
    using a by simp_all
  note b = fadd_exact[OF a2 E(1) a3 E(2)]
  have b1: "fadd (t + W) E = t + W + E" and b2: "t + W + E \<in> \<int>"
    and b3: "\<bar>t + W + E\<bar> \<le> 2 ^ 40 + 2 ^ 40 + 2 ^ 40" using b by simp_all
  have d1: "fsub (t + W + E) L = t + W + E - L"
    using fsub_exact[OF b2 assms(4) b3 assms(5)] by simp
  note p = fsub_exact[OF assms(4) W(1) assms(5) W(2)]
  have p1: "fsub L W = L - W" and p2: "L - W \<in> \<int>" and p3: "\<bar>L - W\<bar> \<le> 3 * 2 ^ 40 + 2 ^ 40"
    using p by simp_all
  note q = fsub_exact[OF p2 E(1) p3 E(2)]
  have q1: "fsub (L - W) E = L - W - E" and q2: "L - W - E \<in> \<int>"
    and q3: "\<bar>L - W - E\<bar> \<le> 3 * 2 ^ 40 + 2 ^ 40 + 2 ^ 40" using q by simp_all
  note r = fadd_exact[OF q2 W(1) q3 W(2)]
  have r1: "fadd (L - W - E) W = L - W - E + W" and r2: "L - W - E + W \<in> \<int>"
    and r3: "\<bar>L - W - E + W\<bar> \<le> 3 * 2 ^ 40 + 2 ^ 40 + 2 ^ 40 + 2 ^ 40" using r by simp_all
  have s1: "fadd (L - W - E + W) E = L - W - E + W + E"
    using fadd_exact[OF r2 E(1) r3 E(2)] by simp
  show "\<bar>fsub (fsub L W) E - t\<bar> = \<bar>fsub (fadd (fadd t W) E) L\<bar>"
    by (simp add: a1 b1 d1 p1 q1)
  show "fadd (fadd (fsub (fsub L W) E) W) E = L"
    by (simp only: p1 q1 r1 s1)
qed

lemma near_edge_exact:
  assumes "wholeCm t" "wholeCm w0" "L \<in> \<int>" "\<bar>L\<bar> \<le> 3 * 2 ^ 40"
  shows "\<bar>fadd L w0 - t\<bar> = \<bar>fsub (fsub t w0) L\<bar>"
    and "fsub (fadd L w0) w0 = L"
proof -
  have t: "t \<in> \<int>" "\<bar>t\<bar> \<le> 2 ^ 40" and w: "w0 \<in> \<int>" "\<bar>w0\<bar> \<le> 2 ^ 40"
    using assms(1,2) wholeCmD by blast+
  note a = fsub_exact[OF t(1) w(1) t(2) w(2)]
  have a1: "fsub t w0 = t - w0" and a2: "t - w0 \<in> \<int>" and a3: "\<bar>t - w0\<bar> \<le> 2 ^ 40 + 2 ^ 40"
    using a by simp_all
  have d1: "fsub (t - w0) L = t - w0 - L"
    using fsub_exact[OF a2 assms(3) a3 assms(4)] by simp
  note p = fadd_exact[OF assms(3) w(1) assms(4) w(2)]
  have p1: "fadd L w0 = L + w0" and p2: "L + w0 \<in> \<int>" and p3: "\<bar>L + w0\<bar> \<le> 3 * 2 ^ 40 + 2 ^ 40"
    using p by simp_all
  have q1: "fsub (L + w0) w0 = L + w0 - w0"
    using fsub_exact[OF p2 w(1) p3 w(2)] by simp
  show "\<bar>fadd L w0 - t\<bar> = \<bar>fsub (fsub t w0) L\<bar>"
    by (simp add: a1 d1 p1)
  show "fsub (fadd L w0) w0 = L"
    by (simp add: p1 q1)
qed

lemma far_edge_back_near:
  assumes "planCm W" "planCm E" "\<bar>L\<bar> \<le> 3000002"
  shows "\<bar>fadd (fadd (fsub (fsub L W) E) W) E - L\<bar> \<le> 5 * rdErr"
proof -
  have W: "\<bar>W\<bar> \<le> 1000000" and E: "\<bar>E\<bar> \<le> 1000000"
    using assms by (simp_all add: planCm_def)
  have p1: "\<bar>fsub L W - (L - W)\<bar> \<le> rdErr" and p2: "\<bar>fsub L W\<bar> \<le> 4000003"
    using fsub_near[OF assms(3) W] by simp_all
  have q1: "\<bar>fsub (fsub L W) E - (fsub L W - E)\<bar> \<le> rdErr" and q2: "\<bar>fsub (fsub L W) E\<bar> \<le> 5000004"
    using fsub_near[OF p2 E] by simp_all
  have r1: "\<bar>fadd (fsub (fsub L W) E) W - (fsub (fsub L W) E + W)\<bar> \<le> rdErr"
    and r2: "\<bar>fadd (fsub (fsub L W) E) W\<bar> \<le> 6000005"
    using fadd_near[OF q2 W] by simp_all
  have s1: "\<bar>fadd (fadd (fsub (fsub L W) E) W) E - (fadd (fsub (fsub L W) E) W + E)\<bar> \<le> rdErr"
    using fadd_near[OF r2 E] by simp
  show ?thesis using p1 q1 r1 s1 rdErr_small(1) by linarith
qed

lemma near_edge_back_near:
  assumes "planCm w0" "\<bar>L\<bar> \<le> 3000002"
  shows "\<bar>fsub (fadd L w0) w0 - L\<bar> \<le> 5 * rdErr"
proof -
  have w: "\<bar>w0\<bar> \<le> 1000000" using assms by (simp add: planCm_def)
  have p1: "\<bar>fadd L w0 - (L + w0)\<bar> \<le> rdErr" and p2: "\<bar>fadd L w0\<bar> \<le> 4000003"
    using fadd_near[OF assms(2) w] by simp_all
  have q1: "\<bar>fsub (fadd L w0) w0 - (fadd L w0 - w0)\<bar> \<le> rdErr"
    using fsub_near[OF p2 w] by simp
  show ?thesis using p1 q1 rdErr_small(1) by linarith
qed

lemma xCandidates_shape:
  "xCandidates R (outerBoundsCm R g (Some tx) (Some ty)) g N =
     [ farCand tx (Room.widthCm R) (WallSides.east (getWallThicknessCm R g)) WALL_SNAP_TOLERANCE_CM
         (left (innerBoundsCm N None None)),
       nearCand tx (WallSides.west (getWallThicknessCm R g)) WALL_SNAP_TOLERANCE_CM
         (right (innerBoundsCm N None None)),
       nearCand tx (WallSides.west (getWallThicknessCm R g)) SNAP_TOLERANCE_CM
         (left (outerBoundsCm N g None None)),
       farCand tx (Room.widthCm R) (WallSides.east (getWallThicknessCm R g)) SNAP_TOLERANCE_CM
         (right (outerBoundsCm N g None None)) ]"
  by (simp add: xCandidates_def farCand_def nearCand_def outerBoundsCm_def Let_def)

lemma yCandidates_shape:
  "yCandidates R (outerBoundsCm R g (Some tx) (Some ty)) g N =
     [ farCand ty (Room.heightCm R) (WallSides.south (getWallThicknessCm R g)) WALL_SNAP_TOLERANCE_CM
         (top' (innerBoundsCm N None None)),
       nearCand ty (WallSides.north (getWallThicknessCm R g)) WALL_SNAP_TOLERANCE_CM
         (bottom (innerBoundsCm N None None)),
       nearCand ty (WallSides.north (getWallThicknessCm R g)) SNAP_TOLERANCE_CM
         (top' (outerBoundsCm N g None None)),
       farCand ty (Room.heightCm R) (WallSides.south (getWallThicknessCm R g)) SNAP_TOLERANCE_CM
         (bottom (outerBoundsCm N g None None)) ]"
  by (simp add: yCandidates_def farCand_def nearCand_def outerBoundsCm_def Let_def)

lemma edges_plan:
  assumes "planRoom g N"
  shows "\<bar>left (innerBoundsCm N None None)\<bar> \<le> 3000002" "\<bar>right (innerBoundsCm N None None)\<bar> \<le> 3000002"
    "\<bar>top' (innerBoundsCm N None None)\<bar> \<le> 3000002" "\<bar>bottom (innerBoundsCm N None None)\<bar> \<le> 3000002"
    "\<bar>left (outerBoundsCm N g None None)\<bar> \<le> 3000002" "\<bar>right (outerBoundsCm N g None None)\<bar> \<le> 3000002"
    "\<bar>top' (outerBoundsCm N g None None)\<bar> \<le> 3000002" "\<bar>bottom (outerBoundsCm N g None None)\<bar> \<le> 3000002"
proof -
  let ?ws = "getWallThicknessCm N g"
  have x: "\<bar>Room.xCm N\<bar> \<le> 1000000" and y: "\<bar>Room.yCm N\<bar> \<le> 1000000"
    and w: "\<bar>Room.widthCm N\<bar> \<le> 1000000" and h: "\<bar>Room.heightCm N\<bar> \<le> 1000000"
    and n: "\<bar>WallSides.north ?ws\<bar> \<le> 1000000" and s: "\<bar>WallSides.south ?ws\<bar> \<le> 1000000"
    and e: "\<bar>WallSides.east ?ws\<bar> \<le> 1000000" and we: "\<bar>WallSides.west ?ws\<bar> \<le> 1000000"
    using assms by (simp_all add: planRoom_def planCm_def)
  have xw: "\<bar>fadd (Room.xCm N) (Room.widthCm N)\<bar> \<le> 2000001" using fadd_near(2)[OF x w] by simp
  have yh: "\<bar>fadd (Room.yCm N) (Room.heightCm N)\<bar> \<le> 2000001" using fadd_near(2)[OF y h] by simp
  show "\<bar>left (innerBoundsCm N None None)\<bar> \<le> 3000002" using x by (simp add: innerBoundsCm_def Let_def)
  show "\<bar>right (innerBoundsCm N None None)\<bar> \<le> 3000002" using xw by (simp add: innerBoundsCm_def Let_def)
  show "\<bar>top' (innerBoundsCm N None None)\<bar> \<le> 3000002" using y by (simp add: innerBoundsCm_def Let_def)
  show "\<bar>bottom (innerBoundsCm N None None)\<bar> \<le> 3000002" using yh by (simp add: innerBoundsCm_def Let_def)
  show "\<bar>left (outerBoundsCm N g None None)\<bar> \<le> 3000002"
    using fsub_near(2)[OF x we] by (simp add: outerBoundsCm_def Let_def)
  show "\<bar>right (outerBoundsCm N g None None)\<bar> \<le> 3000002"
    using fadd_near(2)[OF xw e] by (simp add: outerBoundsCm_def Let_def)
  show "\<bar>top' (outerBoundsCm N g None None)\<bar> \<le> 3000002"
    using fsub_near(2)[OF y n] by (simp add: outerBoundsCm_def Let_def)
  show "\<bar>bottom (outerBoundsCm N g None None)\<bar> \<le> 3000002"
    using fadd_near(2)[OF yh s] by (simp add: outerBoundsCm_def Let_def)
qed

lemma edges_whole:
  assumes "wholeRoom g N"
  shows "left (innerBoundsCm N None None) \<in> \<int> \<and> \<bar>left (innerBoundsCm N None None)\<bar> \<le> 3 * 2 ^ 40"
    "right (innerBoundsCm N None None) \<in> \<int> \<and> \<bar>right (innerBoundsCm N None None)\<bar> \<le> 3 * 2 ^ 40"
    "top' (innerBoundsCm N None None) \<in> \<int> \<and> \<bar>top' (innerBoundsCm N None None)\<bar> \<le> 3 * 2 ^ 40"
    "bottom (innerBoundsCm N None None) \<in> \<int> \<and> \<bar>bottom (innerBoundsCm N None None)\<bar> \<le> 3 * 2 ^ 40"
    "left (outerBoundsCm N g None None) \<in> \<int> \<and> \<bar>left (outerBoundsCm N g None None)\<bar> \<le> 3 * 2 ^ 40"
    "right (outerBoundsCm N g None None) \<in> \<int> \<and> \<bar>right (outerBoundsCm N g None None)\<bar> \<le> 3 * 2 ^ 40"
    "top' (outerBoundsCm N g None None) \<in> \<int> \<and> \<bar>top' (outerBoundsCm N g None None)\<bar> \<le> 3 * 2 ^ 40"
    "bottom (outerBoundsCm N g None None) \<in> \<int> \<and> \<bar>bottom (outerBoundsCm N g None None)\<bar> \<le> 3 * 2 ^ 40"
proof -
  let ?ws = "getWallThicknessCm N g"
  have x: "Room.xCm N \<in> \<int>" "\<bar>Room.xCm N\<bar> \<le> 2 ^ 40" and y: "Room.yCm N \<in> \<int>" "\<bar>Room.yCm N\<bar> \<le> 2 ^ 40"
    and w: "Room.widthCm N \<in> \<int>" "\<bar>Room.widthCm N\<bar> \<le> 2 ^ 40"
    and h: "Room.heightCm N \<in> \<int>" "\<bar>Room.heightCm N\<bar> \<le> 2 ^ 40"
    and n: "WallSides.north ?ws \<in> \<int>" "\<bar>WallSides.north ?ws\<bar> \<le> 2 ^ 40"
    and s: "WallSides.south ?ws \<in> \<int>" "\<bar>WallSides.south ?ws\<bar> \<le> 2 ^ 40"
    and e: "WallSides.east ?ws \<in> \<int>" "\<bar>WallSides.east ?ws\<bar> \<le> 2 ^ 40"
    and we: "WallSides.west ?ws \<in> \<int>" "\<bar>WallSides.west ?ws\<bar> \<le> 2 ^ 40"
    using assms wholeCmD unfolding wholeRoom_def by blast+
  note xw = fadd_exact[OF x(1) w(1) x(2) w(2)]
  note yh = fadd_exact[OF y(1) h(1) y(2) h(2)]
  have xw': "fadd (Room.xCm N) (Room.widthCm N) \<in> \<int>"
       "\<bar>fadd (Room.xCm N) (Room.widthCm N)\<bar> \<le> 2 ^ 40 + 2 ^ 40" using xw by simp_all
  have yh': "fadd (Room.yCm N) (Room.heightCm N) \<in> \<int>"
       "\<bar>fadd (Room.yCm N) (Room.heightCm N)\<bar> \<le> 2 ^ 40 + 2 ^ 40" using yh by simp_all
  show "left (innerBoundsCm N None None) \<in> \<int> \<and> \<bar>left (innerBoundsCm N None None)\<bar> \<le> 3 * 2 ^ 40"
    using x by (simp add: innerBoundsCm_def Let_def)
  show "right (innerBoundsCm N None None) \<in> \<int> \<and> \<bar>right (innerBoundsCm N None None)\<bar> \<le> 3 * 2 ^ 40"
    using xw' by (simp add: innerBoundsCm_def Let_def)
  show "top' (innerBoundsCm N None None) \<in> \<int> \<and> \<bar>top' (innerBoundsCm N None None)\<bar> \<le> 3 * 2 ^ 40"
    using y by (simp add: innerBoundsCm_def Let_def)
  show "bottom (innerBoundsCm N None None) \<in> \<int> \<and> \<bar>bottom (innerBoundsCm N None None)\<bar> \<le> 3 * 2 ^ 40"
    using yh' by (simp add: innerBoundsCm_def Let_def)
  show "left (outerBoundsCm N g None None) \<in> \<int> \<and> \<bar>left (outerBoundsCm N g None None)\<bar> \<le> 3 * 2 ^ 40"
    using fsub_exact[OF x(1) we(1) x(2) we(2)] by (simp add: outerBoundsCm_def Let_def)
  show "right (outerBoundsCm N g None None) \<in> \<int> \<and> \<bar>right (outerBoundsCm N g None None)\<bar> \<le> 3 * 2 ^ 40"
    using fadd_exact[OF xw'(1) e(1) xw'(2) e(2)] by (simp add: outerBoundsCm_def Let_def)
  show "top' (outerBoundsCm N g None None) \<in> \<int> \<and> \<bar>top' (outerBoundsCm N g None None)\<bar> \<le> 3 * 2 ^ 40"
    using fsub_exact[OF y(1) n(1) y(2) n(2)] by (simp add: outerBoundsCm_def Let_def)
  show "bottom (outerBoundsCm N g None None) \<in> \<int> \<and> \<bar>bottom (outerBoundsCm N g None None)\<bar> \<le> 3 * 2 ^ 40"
    using fadd_exact[OF yh'(1) s(1) yh'(2) s(2)] by (simp add: outerBoundsCm_def Let_def)
qed

lemma farCand_near:
  assumes "planCm t" "planCm W" "planCm E" "\<bar>L\<bar> \<le> 3000002"
  shows "\<bar>pos (farCand t W E tolr L) - t\<bar> \<le> distance (farCand t W E tolr L) + 5 * rdErr"
  using far_edge_near[OF assms] by (simp add: farCand_def)

lemma nearCand_near:
  assumes "planCm t" "planCm w0" "\<bar>L\<bar> \<le> 3000002"
  shows "\<bar>pos (nearCand t w0 tolr L) - t\<bar> \<le> distance (nearCand t w0 tolr L) + 5 * rdErr"
  using near_edge_near[OF assms] by (simp add: nearCand_def)

lemma farCand_exact:
  assumes "wholeCm t" "wholeCm W" "wholeCm E" "L \<in> \<int> \<and> \<bar>L\<bar> \<le> 3 * 2 ^ 40"
  shows "\<bar>pos (farCand t W E tolr L) - t\<bar> \<le> distance (farCand t W E tolr L) + 0"
  using far_edge_exact(1)[OF assms(1-3), of L] assms(4) by (simp add: farCand_def)

lemma nearCand_exact:
  assumes "wholeCm t" "wholeCm w0" "L \<in> \<int> \<and> \<bar>L\<bar> \<le> 3 * 2 ^ 40"
  shows "\<bar>pos (nearCand t w0 tolr L) - t\<bar> \<le> distance (nearCand t w0 tolr L) + 0"
  using near_edge_exact(1)[OF assms(1-2), of L] assms(3) by (simp add: nearCand_def)

lemma cand_tol [simp]: "tol (farCand t W E tolr L) = tolr" "tol (nearCand t w0 tolr L) = tolr"
  by (simp_all add: farCand_def nearCand_def)

lemma xCandidates_near:
  assumes "planCm tx" "planRoom g R" "planRoom g N"
    "c \<in> set (xCandidates R (outerBoundsCm R g (Some tx) (Some ty)) g N)"
  shows "\<bar>pos c - tx\<bar> \<le> distance c + 5 * rdErr \<and> tol c \<le> WALL_SNAP_TOLERANCE_CM"
proof -
  have R: "planCm (Room.widthCm R)" "planCm (WallSides.east (getWallThicknessCm R g))"
    "planCm (WallSides.west (getWallThicknessCm R g))" using assms(2) by (simp_all add: planRoom_def)
  note e = edges_plan[OF assms(3)]
  show ?thesis using assms(4) unfolding xCandidates_shape
    using farCand_near[OF assms(1) R(1) R(2) e(1)] nearCand_near[OF assms(1) R(3) e(2)]
      nearCand_near[OF assms(1) R(3) e(5)] farCand_near[OF assms(1) R(1) R(2) e(6)]
    by (auto simp: WALL_SNAP_TOLERANCE_CM_def SNAP_TOLERANCE_CM_def)
qed

lemma yCandidates_near:
  assumes "planCm ty" "planRoom g R" "planRoom g N"
    "c \<in> set (yCandidates R (outerBoundsCm R g (Some tx) (Some ty)) g N)"
  shows "\<bar>pos c - ty\<bar> \<le> distance c + 5 * rdErr \<and> tol c \<le> WALL_SNAP_TOLERANCE_CM"
proof -
  have R: "planCm (Room.heightCm R)" "planCm (WallSides.south (getWallThicknessCm R g))"
    "planCm (WallSides.north (getWallThicknessCm R g))" using assms(2) by (simp_all add: planRoom_def)
  note e = edges_plan[OF assms(3)]
  show ?thesis using assms(4) unfolding yCandidates_shape
    using farCand_near[OF assms(1) R(1) R(2) e(3)] nearCand_near[OF assms(1) R(3) e(4)]
      nearCand_near[OF assms(1) R(3) e(7)] farCand_near[OF assms(1) R(1) R(2) e(8)]
    by (auto simp: WALL_SNAP_TOLERANCE_CM_def SNAP_TOLERANCE_CM_def)
qed

lemma xCandidates_exact:
  assumes "wholeCm tx" "wholeRoom g R" "wholeRoom g N"
    "c \<in> set (xCandidates R (outerBoundsCm R g (Some tx) (Some ty)) g N)"
  shows "\<bar>pos c - tx\<bar> \<le> distance c + 0 \<and> tol c \<le> WALL_SNAP_TOLERANCE_CM"
proof -
  have R: "wholeCm (Room.widthCm R)" "wholeCm (WallSides.east (getWallThicknessCm R g))"
    "wholeCm (WallSides.west (getWallThicknessCm R g))" using assms(2) by (simp_all add: wholeRoom_def)
  note e = edges_whole[OF assms(3)]
  show ?thesis using assms(4) unfolding xCandidates_shape
    using farCand_exact[OF assms(1) R(1) R(2) e(1)] nearCand_exact[OF assms(1) R(3) e(2)]
      nearCand_exact[OF assms(1) R(3) e(5)] farCand_exact[OF assms(1) R(1) R(2) e(6)]
    by (auto simp: WALL_SNAP_TOLERANCE_CM_def SNAP_TOLERANCE_CM_def)
qed

lemma yCandidates_exact:
  assumes "wholeCm ty" "wholeRoom g R" "wholeRoom g N"
    "c \<in> set (yCandidates R (outerBoundsCm R g (Some tx) (Some ty)) g N)"
  shows "\<bar>pos c - ty\<bar> \<le> distance c + 0 \<and> tol c \<le> WALL_SNAP_TOLERANCE_CM"
proof -
  have R: "wholeCm (Room.heightCm R)" "wholeCm (WallSides.south (getWallThicknessCm R g))"
    "wholeCm (WallSides.north (getWallThicknessCm R g))" using assms(2) by (simp_all add: wholeRoom_def)
  note e = edges_whole[OF assms(3)]
  show ?thesis using assms(4) unfolding yCandidates_shape
    using farCand_exact[OF assms(1) R(1) R(2) e(3)] nearCand_exact[OF assms(1) R(3) e(4)]
      nearCand_exact[OF assms(1) R(3) e(7)] farCand_exact[OF assms(1) R(1) R(2) e(8)]
    by (auto simp: WALL_SNAP_TOLERANCE_CM_def SNAP_TOLERANCE_CM_def)
qed

lemma find_SomeD: "find P xs = Some x \<Longrightarrow> x \<in> set xs \<and> P x"
  by (induction xs) (auto split: if_splits)

lemma firstMatch_within:
  assumes "\<forall>c \<in> set cs. \<bar>pos c - t\<bar> \<le> distance c + k \<and> tol c \<le> WALL_SNAP_TOLERANCE_CM" "0 \<le> k"
  shows "\<bar>fst (firstMatch (t, False, None) cs) - t\<bar> \<le> WALL_SNAP_TOLERANCE_CM + k"
proof (cases "find matches cs")
  case None
  then show ?thesis using assms(2) by (simp add: firstMatch_def WALL_SNAP_TOLERANCE_CM_def)
next
  case (Some c)
  then have "c \<in> set cs" "matches c" using find_SomeD[of matches cs c] by simp_all
  then have "\<bar>pos c - t\<bar> \<le> WALL_SNAP_TOLERANCE_CM + k" using assms(1) by (auto simp: matches_def)
  then show ?thesis using Some by (simp add: firstMatch_def)
qed

lemma firstMatch_unsnapped:
  "\<not> fst (snd (firstMatch (t, False, None) cs)) \<Longrightarrow> fst (firstMatch (t, False, None) cs) = t"
  by (simp add: firstMatch_def split: option.splits)

lemma calculateSnap_unsnapped:
  "(\<not> snappedX (calculateSnap R rs tx ty g) \<longrightarrow> xCm (calculateSnap R rs tx ty g) = tx)
   \<and> (\<not> snappedY (calculateSnap R rs tx ty g) \<longrightarrow> yCm (calculateSnap R rs tx ty g) = ty)"
  using firstMatch_unsnapped[of tx "allXCandidates R rs tx ty g"]
    firstMatch_unsnapped[of ty "allYCandidates R rs tx ty g"]
    calculateSnap_xPart[of R rs tx ty g, symmetric] calculateSnap_yPart[of R rs tx ty g, symmetric]
  by (simp add: xPart_def yPart_def)

lemma calculateSnap_alone:
  assumes "\<forall>r \<in> set rs. Room.ident r = Room.ident R"
  shows "calculateSnap R rs tx ty g =
          \<lparr> xCm = tx, yCm = ty, snappedX = False, snappedY = False, xGuideCm = None, yGuideCm = None \<rparr>"
proof -
  have "filter (\<lambda>r. Room.ident r \<noteq> Room.ident R) rs = []" using assms by (simp add: filter_empty_conv)
  then show ?thesis by (simp add: calculateSnap_def Let_def)
qed

lemma calculateSnap_within_plan:
  assumes "planCm tx" "planCm ty" "planRoom g R" "\<forall>r \<in> set rs. planRoom g r"
  shows "\<bar>xCm (calculateSnap R rs tx ty g) - tx\<bar> \<le> WALL_SNAP_TOLERANCE_CM + 5 * rdErr"
    and "\<bar>yCm (calculateSnap R rs tx ty g) - ty\<bar> \<le> WALL_SNAP_TOLERANCE_CM + 5 * rdErr"
proof -
  have x: "\<forall>c \<in> set (allXCandidates R rs tx ty g).
          \<bar>pos c - tx\<bar> \<le> distance c + 5 * rdErr \<and> tol c \<le> WALL_SNAP_TOLERANCE_CM"
    unfolding allXCandidates_def othersOf_def
    using xCandidates_near[OF assms(1,3)] assms(4) by auto
  have y: "\<forall>c \<in> set (allYCandidates R rs tx ty g).
          \<bar>pos c - ty\<bar> \<le> distance c + 5 * rdErr \<and> tol c \<le> WALL_SNAP_TOLERANCE_CM"
    unfolding allYCandidates_def othersOf_def
    using yCandidates_near[OF assms(2,3)] assms(4) by auto
  have k: "0 \<le> 5 * rdErr" using rdErr_small(1) by simp
  show "\<bar>xCm (calculateSnap R rs tx ty g) - tx\<bar> \<le> WALL_SNAP_TOLERANCE_CM + 5 * rdErr"
    using firstMatch_within[OF x k] calculateSnap_xPart[of R rs tx ty g, symmetric]
    by (simp add: xPart_def)
  show "\<bar>yCm (calculateSnap R rs tx ty g) - ty\<bar> \<le> WALL_SNAP_TOLERANCE_CM + 5 * rdErr"
    using firstMatch_within[OF y k] calculateSnap_yPart[of R rs tx ty g, symmetric]
    by (simp add: yPart_def)
qed

lemma calculateSnap_within_whole:
  assumes "wholeCm tx" "wholeCm ty" "wholeRoom g R" "\<forall>r \<in> set rs. wholeRoom g r"
  shows "\<bar>xCm (calculateSnap R rs tx ty g) - tx\<bar> \<le> WALL_SNAP_TOLERANCE_CM"
    and "\<bar>yCm (calculateSnap R rs tx ty g) - ty\<bar> \<le> WALL_SNAP_TOLERANCE_CM"
proof -
  have x: "\<forall>c \<in> set (allXCandidates R rs tx ty g).
          \<bar>pos c - tx\<bar> \<le> distance c + 0 \<and> tol c \<le> WALL_SNAP_TOLERANCE_CM"
    unfolding allXCandidates_def othersOf_def
    using xCandidates_exact[OF assms(1,3)] assms(4) by auto
  have y: "\<forall>c \<in> set (allYCandidates R rs tx ty g).
          \<bar>pos c - ty\<bar> \<le> distance c + 0 \<and> tol c \<le> WALL_SNAP_TOLERANCE_CM"
    unfolding allYCandidates_def othersOf_def
    using yCandidates_exact[OF assms(2,3)] assms(4) by auto
  show "\<bar>xCm (calculateSnap R rs tx ty g) - tx\<bar> \<le> WALL_SNAP_TOLERANCE_CM"
    using firstMatch_within[OF x order_refl] calculateSnap_xPart[of R rs tx ty g, symmetric]
    by (simp add: xPart_def)
  show "\<bar>yCm (calculateSnap R rs tx ty g) - ty\<bar> \<le> WALL_SNAP_TOLERANCE_CM"
    using firstMatch_within[OF y order_refl] calculateSnap_yPart[of R rs tx ty g, symmetric]
    by (simp add: yPart_def)
qed

text \<open>
  C10 (amended).  On an axis that \<^verbatim>\<open>calculateSnap\<close> has not snapped the returned
  coordinate is the target, and with no room of another id in the list the target comes
  back unchanged with both flags false.  When the target and the position, size and wall
  thicknesses of every room are at most \<open>10 ^ 6\<close> cm in magnitude, the returned coordinate
  differs from the target by at most \<^verbatim>\<open>WALL_SNAP_TOLERANCE_CM\<close> plus \<open>1 / 10 ^ 8\<close> cm
  on each axis; when they are whole centimetres, by at most
  \<^verbatim>\<open>WALL_SNAP_TOLERANCE_CM\<close>.  The bound of 15 cm alone fails in doubles: a room 152.6
  wide with an east wall of 12.1, dragged to 113.3 beside a neighbour at 293, is measured
  at a distance of 15 and snapped to the double 128.3, which is more than 15 from the
  double 113.3.
\<close>

theorem calculateSnap_moves_at_most_tolerance:
  "(\<not> snappedX (calculateSnap R rs tx ty g) \<longrightarrow> xCm (calculateSnap R rs tx ty g) = tx)
   \<and> (\<not> snappedY (calculateSnap R rs tx ty g) \<longrightarrow> yCm (calculateSnap R rs tx ty g) = ty)
   \<and> ((\<forall>r \<in> set rs. Room.ident r = Room.ident R) \<longrightarrow>
        calculateSnap R rs tx ty g =
          \<lparr> xCm = tx, yCm = ty, snappedX = False, snappedY = False, xGuideCm = None, yGuideCm = None \<rparr>)
   \<and> (planCm tx \<and> planCm ty \<and> planRoom g R \<and> (\<forall>r \<in> set rs. planRoom g r) \<longrightarrow>
        \<bar>xCm (calculateSnap R rs tx ty g) - tx\<bar> \<le> WALL_SNAP_TOLERANCE_CM + 1 / 10 ^ 8
        \<and> \<bar>yCm (calculateSnap R rs tx ty g) - ty\<bar> \<le> WALL_SNAP_TOLERANCE_CM + 1 / 10 ^ 8)
   \<and> (wholeCm tx \<and> wholeCm ty \<and> wholeRoom g R \<and> (\<forall>r \<in> set rs. wholeRoom g r) \<longrightarrow>
        \<bar>xCm (calculateSnap R rs tx ty g) - tx\<bar> \<le> WALL_SNAP_TOLERANCE_CM
        \<and> \<bar>yCm (calculateSnap R rs tx ty g) - ty\<bar> \<le> WALL_SNAP_TOLERANCE_CM)"
proof -
  have plan: "planCm tx \<and> planCm ty \<and> planRoom g R \<and> (\<forall>r \<in> set rs. planRoom g r) \<longrightarrow>
        \<bar>xCm (calculateSnap R rs tx ty g) - tx\<bar> \<le> WALL_SNAP_TOLERANCE_CM + 1 / 10 ^ 8
        \<and> \<bar>yCm (calculateSnap R rs tx ty g) - ty\<bar> \<le> WALL_SNAP_TOLERANCE_CM + 1 / 10 ^ 8"
    using calculateSnap_within_plan[of tx ty g R rs] rdErr_small(3) by fastforce
  have whole: "wholeCm tx \<and> wholeCm ty \<and> wholeRoom g R \<and> (\<forall>r \<in> set rs. wholeRoom g r) \<longrightarrow>
        \<bar>xCm (calculateSnap R rs tx ty g) - tx\<bar> \<le> WALL_SNAP_TOLERANCE_CM
        \<and> \<bar>yCm (calculateSnap R rs tx ty g) - ty\<bar> \<le> WALL_SNAP_TOLERANCE_CM"
    using calculateSnap_within_whole[of tx ty g R rs] by blast
  show ?thesis
    using plan whole calculateSnap_unsnapped[of R rs tx ty g] calculateSnap_alone[of rs R tx ty g]
    by blast
qed

lemma exWide_values:
  "\<bar>fsub (fadd (fadd (rd (1133 / 10)) (rd (763 / 5))) (rd (121 / 10))) 293\<bar> \<le> 15"
  "15 < \<bar>fsub (fsub 293 (rd (763 / 5))) (rd (121 / 10)) - rd (1133 / 10)\<bar>"
  by (simp_all add: fadd_def fsub_def rd_eval)

theorem calculateSnap_moves_counterexample:
  "snappedX (calculateSnap exWide [exAt293] exTarget 0 10)
   \<and> WALL_SNAP_TOLERANCE_CM < \<bar>xCm (calculateSnap exWide [exAt293] exTarget 0 10) - exTarget\<bar>"
proof -
  have "xPart (calculateSnap exWide [exAt293] exTarget 0 10) =
          (fsub (fsub 293 (rd (763 / 5))) (rd (121 / 10)), True, Some 293)"
    using exWide_values(1)
    by (simp add: calculateSnap_xPart allXCandidates_def othersOf_def xCandidates_shape firstMatch_def
        farCand_def matches_def innerBoundsCm_def getWallThicknessCm_def sideOr_def Let_def
        WALL_SNAP_TOLERANCE_CM_def exWide_def exAt293_def exTarget_def)
  then show ?thesis using exWide_values(2)
    by (simp add: xPart_def WALL_SNAP_TOLERANCE_CM_def exTarget_def)
qed

theorem calculateSnap_moves_at_most_tolerance_witness:
  "calculateSnap exMoving [exMoving] 93 40 10 =
     \<lparr> xCm = 93, yCm = 40, snappedX = False, snappedY = False, xGuideCm = None, yGuideCm = None \<rparr>
   \<and> \<not> snappedY (calculateSnap exMoving [exFirst] 93 40 10)
   \<and> yCm (calculateSnap exMoving [exFirst] 93 40 10) = 40
   \<and> \<bar>xCm (calculateSnap exMoving [exFirst] 93 40 10) - 93\<bar> \<le> WALL_SNAP_TOLERANCE_CM"
proof -
  have alone: "\<forall>r \<in> set [exMoving]. Room.ident r = Room.ident exMoving" by simp
  have unsnapped: "\<not> snappedY (calculateSnap exMoving [exFirst] 93 40 10)"
    by (simp add: snap_eval exMoving_def exFirst_def)
  have w: "wholeCm 93" "wholeCm 40" "wholeRoom 10 exMoving" "\<forall>r \<in> set [exFirst]. wholeRoom 10 r"
    by (simp_all add: wholeCm_def wholeRoom_def getWallThicknessCm_def sideOr_def exMoving_def exFirst_def)
  show ?thesis
    using calculateSnap_moves_at_most_tolerance[of exMoving "[exMoving]" 93 40 10]
      calculateSnap_moves_at_most_tolerance[of exMoving "[exFirst]" 93 40 10] alone unsnapped w
    by blast
qed

section \<open>Room snapping: wall overlap\<close>

lemma xPart_at_neighbour:
  assumes "Room.ident N \<noteq> Room.ident R" "\<not> snappedX (calculateSnap R pre tx ty g)"
  shows "xPart (calculateSnap R (pre @ N # rest) tx ty g) =
           firstMatch (tx, False, None)
             (xCandidates R (outerBoundsCm R g (Some tx) (Some ty)) g N @ allXCandidates R rest tx ty g)"
proof -
  have "find matches (allXCandidates R pre tx ty g) = None" using assms(2) by (simp add: snappedX_iff)
  moreover have "allXCandidates R (pre @ N # rest) tx ty g =
      allXCandidates R pre tx ty g @
      (xCandidates R (outerBoundsCm R g (Some tx) (Some ty)) g N @ allXCandidates R rest tx ty g)"
    using assms(1) by (simp add: allXCandidates_def othersOf_def)
  ultimately show ?thesis by (simp add: calculateSnap_xPart firstMatch_append)
qed

lemma yPart_at_neighbour:
  assumes "Room.ident N \<noteq> Room.ident R" "\<not> snappedY (calculateSnap R pre tx ty g)"
  shows "yPart (calculateSnap R (pre @ N # rest) tx ty g) =
           firstMatch (ty, False, None)
             (yCandidates R (outerBoundsCm R g (Some tx) (Some ty)) g N @ allYCandidates R rest tx ty g)"
proof -
  have "find matches (allYCandidates R pre tx ty g) = None" using assms(2) by (simp add: snappedY_iff)
  moreover have "allYCandidates R (pre @ N # rest) tx ty g =
      allYCandidates R pre tx ty g @
      (yCandidates R (outerBoundsCm R g (Some tx) (Some ty)) g N @ allYCandidates R rest tx ty g)"
    using assms(1) by (simp add: allYCandidates_def othersOf_def)
  ultimately show ?thesis by (simp add: calculateSnap_yPart firstMatch_append)
qed

lemma outerBounds_at:
  "left (outerBoundsCm R g (Some x) (Some y)) = fsub x (WallSides.west (getWallThicknessCm R g))"
  "right (outerBoundsCm R g (Some x) (Some y)) =
     fadd (fadd x (Room.widthCm R)) (WallSides.east (getWallThicknessCm R g))"
  "top' (outerBoundsCm R g (Some x) (Some y)) = fsub y (WallSides.north (getWallThicknessCm R g))"
  "bottom (outerBoundsCm R g (Some x) (Some y)) =
     fadd (fadd y (Room.heightCm R)) (WallSides.south (getWallThicknessCm R g))"
  by (simp_all add: outerBoundsCm_def Let_def)

lemma xCm_at_neighbour:
  assumes "Room.ident N \<noteq> Room.ident R" "\<not> snappedX (calculateSnap R pre tx ty g)"
  shows "(\<bar>fsub (right (outerBoundsCm R g (Some tx) (Some ty))) (left (innerBoundsCm N None None))\<bar>
            \<le> WALL_SNAP_TOLERANCE_CM \<longrightarrow>
          xCm (calculateSnap R (pre @ N # rest) tx ty g) =
            fsub (fsub (left (innerBoundsCm N None None)) (Room.widthCm R))
                 (WallSides.east (getWallThicknessCm R g)))
       \<and> (\<not> \<bar>fsub (right (outerBoundsCm R g (Some tx) (Some ty))) (left (innerBoundsCm N None None))\<bar>
            \<le> WALL_SNAP_TOLERANCE_CM \<and>
          \<bar>fsub (left (outerBoundsCm R g (Some tx) (Some ty))) (right (innerBoundsCm N None None))\<bar>
            \<le> WALL_SNAP_TOLERANCE_CM \<longrightarrow>
          xCm (calculateSnap R (pre @ N # rest) tx ty g) =
            fadd (right (innerBoundsCm N None None)) (WallSides.west (getWallThicknessCm R g)))"
  using xPart_at_neighbour[OF assms, of rest]
  by (auto simp: xPart_def firstMatch_def xCandidates_shape farCand_def nearCand_def matches_def
      outerBounds_at)

lemma yCm_at_neighbour:
  assumes "Room.ident N \<noteq> Room.ident R" "\<not> snappedY (calculateSnap R pre tx ty g)"
  shows "(\<bar>fsub (bottom (outerBoundsCm R g (Some tx) (Some ty))) (top' (innerBoundsCm N None None))\<bar>
            \<le> WALL_SNAP_TOLERANCE_CM \<longrightarrow>
          yCm (calculateSnap R (pre @ N # rest) tx ty g) =
            fsub (fsub (top' (innerBoundsCm N None None)) (Room.heightCm R))
                 (WallSides.south (getWallThicknessCm R g)))
       \<and> (\<not> \<bar>fsub (bottom (outerBoundsCm R g (Some tx) (Some ty))) (top' (innerBoundsCm N None None))\<bar>
            \<le> WALL_SNAP_TOLERANCE_CM \<and>
          \<bar>fsub (top' (outerBoundsCm R g (Some tx) (Some ty))) (bottom (innerBoundsCm N None None))\<bar>
            \<le> WALL_SNAP_TOLERANCE_CM \<longrightarrow>
          yCm (calculateSnap R (pre @ N # rest) tx ty g) =
            fadd (bottom (innerBoundsCm N None None)) (WallSides.north (getWallThicknessCm R g)))"
  using yPart_at_neighbour[OF assms, of rest]
  by (auto simp: yPart_def firstMatch_def yCandidates_shape farCand_def nearCand_def matches_def
      outerBounds_at)

lemma wholeCm_0: "wholeCm 0"
  by (simp add: wholeCm_def)

lemma far_back:
  assumes "x = fsub (fsub L W) E"
  shows "wholeCm W \<and> wholeCm E \<and> L \<in> \<int> \<and> \<bar>L\<bar> \<le> 3 * 2 ^ 40 \<longrightarrow> fadd (fadd x W) E = L"
    and "planCm W \<and> planCm E \<and> \<bar>L\<bar> \<le> 3000002 \<longrightarrow> \<bar>fadd (fadd x W) E - L\<bar> \<le> 1 / 10 ^ 8"
  using far_edge_exact(2)[OF wholeCm_0, of W E L] far_edge_back_near[of W E L] rdErr_small(3) assms
  by auto

lemma near_back:
  assumes "x = fadd L w0"
  shows "wholeCm w0 \<and> L \<in> \<int> \<and> \<bar>L\<bar> \<le> 3 * 2 ^ 40 \<longrightarrow> fsub x w0 = L"
    and "planCm w0 \<and> \<bar>L\<bar> \<le> 3000002 \<longrightarrow> \<bar>fsub x w0 - L\<bar> \<le> 1 / 10 ^ 8"
  using near_edge_exact(2)[OF wholeCm_0, of w0 L] near_edge_back_near[of w0 L] rdErr_small(3) assms
  by auto

text \<open>
  C1 (amended).  Let \<open>N\<close> be a listed room with another id than the moving room \<open>R\<close>, and
  let the axis not have snapped against the rooms listed before \<open>N\<close>.  If the outer right
  edge of \<open>R\<close> at the target is measured within \<^verbatim>\<open>WALL_SNAP_TOLERANCE_CM\<close> of the inner
  left edge of \<open>N\<close>, then at the returned position the outer right edge of \<open>R\<close>, computed
  as \<^verbatim>\<open>outerBoundsCm\<close> does, equals the inner left edge of \<open>N\<close> exactly when positions,
  sizes and wall thicknesses of both rooms are whole centimetres, and is within
  \<open>1 / 10 ^ 8\<close> cm of it when they are at most \<open>10 ^ 6\<close> cm in magnitude.  If that test
  fails and the outer left edge of \<open>R\<close> is within tolerance of the inner right edge of
  \<open>N\<close>, the same holds of these two edges; and the same on Y for bottom against top and
  top against bottom.  Without the condition on the rooms before \<open>N\<close> the claim fails, the
  first match winning the axis; and with a neighbour at the double 0.2 the residual is
  not zero.
\<close>

theorem calculateSnap_wall_overlap_exact:
  assumes "Room.ident N \<noteq> Room.ident R"
    and "res = calculateSnap R (pre @ N # rest) tx ty g"
    and "target = outerBoundsCm R g (Some tx) (Some ty)"
    and "snapped = outerBoundsCm R g (Some (xCm res)) (Some (yCm res))"
    and "inner = innerBoundsCm N None None"
  shows "(\<not> snappedX (calculateSnap R pre tx ty g)
            \<and> \<bar>fsub (right target) (left inner)\<bar> \<le> WALL_SNAP_TOLERANCE_CM
          \<longrightarrow> (wholeRoom g R \<and> wholeRoom g N \<longrightarrow> right snapped = left inner)
              \<and> (planRoom g R \<and> planRoom g N \<longrightarrow> \<bar>right snapped - left inner\<bar> \<le> 1 / 10 ^ 8))
       \<and> (\<not> snappedX (calculateSnap R pre tx ty g)
            \<and> \<not> \<bar>fsub (right target) (left inner)\<bar> \<le> WALL_SNAP_TOLERANCE_CM
            \<and> \<bar>fsub (left target) (right inner)\<bar> \<le> WALL_SNAP_TOLERANCE_CM
          \<longrightarrow> (wholeRoom g R \<and> wholeRoom g N \<longrightarrow> left snapped = right inner)
              \<and> (planRoom g R \<and> planRoom g N \<longrightarrow> \<bar>left snapped - right inner\<bar> \<le> 1 / 10 ^ 8))
       \<and> (\<not> snappedY (calculateSnap R pre tx ty g)
            \<and> \<bar>fsub (bottom target) (top' inner)\<bar> \<le> WALL_SNAP_TOLERANCE_CM
          \<longrightarrow> (wholeRoom g R \<and> wholeRoom g N \<longrightarrow> bottom snapped = top' inner)
              \<and> (planRoom g R \<and> planRoom g N \<longrightarrow> \<bar>bottom snapped - top' inner\<bar> \<le> 1 / 10 ^ 8))
       \<and> (\<not> snappedY (calculateSnap R pre tx ty g)
            \<and> \<not> \<bar>fsub (bottom target) (top' inner)\<bar> \<le> WALL_SNAP_TOLERANCE_CM
            \<and> \<bar>fsub (top' target) (bottom inner)\<bar> \<le> WALL_SNAP_TOLERANCE_CM
          \<longrightarrow> (wholeRoom g R \<and> wholeRoom g N \<longrightarrow> top' snapped = bottom inner)
              \<and> (planRoom g R \<and> planRoom g N \<longrightarrow> \<bar>top' snapped - bottom inner\<bar> \<le> 1 / 10 ^ 8))"
proof -
  let ?ws = "getWallThicknessCm R g"
  have wR: "wholeRoom g R \<Longrightarrow> wholeCm (Room.widthCm R) \<and> wholeCm (Room.heightCm R)
      \<and> wholeCm (WallSides.north ?ws) \<and> wholeCm (WallSides.south ?ws)
      \<and> wholeCm (WallSides.east ?ws) \<and> wholeCm (WallSides.west ?ws)"
    by (simp add: wholeRoom_def)
  have pR: "planRoom g R \<Longrightarrow> planCm (Room.widthCm R) \<and> planCm (Room.heightCm R)
      \<and> planCm (WallSides.north ?ws) \<and> planCm (WallSides.south ?ws)
      \<and> planCm (WallSides.east ?ws) \<and> planCm (WallSides.west ?ws)"
    by (simp add: planRoom_def)
  note ew = edges_whole[of g N]
  note ep = edges_plan[of g N]
  have x1: "\<not> snappedX (calculateSnap R pre tx ty g)
            \<and> \<bar>fsub (right target) (left inner)\<bar> \<le> WALL_SNAP_TOLERANCE_CM
          \<longrightarrow> (wholeRoom g R \<and> wholeRoom g N \<longrightarrow> right snapped = left inner)
              \<and> (planRoom g R \<and> planRoom g N \<longrightarrow> \<bar>right snapped - left inner\<bar> \<le> 1 / 10 ^ 8)"
  proof (intro impI, elim conjE)
    assume n: "\<not> snappedX (calculateSnap R pre tx ty g)"
      and t: "\<bar>fsub (right target) (left inner)\<bar> \<le> WALL_SNAP_TOLERANCE_CM"
    have x: "xCm res = fsub (fsub (left inner) (Room.widthCm R)) (WallSides.east ?ws)"
      using xCm_at_neighbour[OF assms(1) n, of rest] t assms(2,3,5) by simp
    have r: "right snapped = fadd (fadd (xCm res) (Room.widthCm R)) (WallSides.east ?ws)"
      by (simp add: assms(4) outerBounds_at)
    show "(wholeRoom g R \<and> wholeRoom g N \<longrightarrow> right snapped = left inner)
          \<and> (planRoom g R \<and> planRoom g N \<longrightarrow> \<bar>right snapped - left inner\<bar> \<le> 1 / 10 ^ 8)"
      unfolding r using far_back[OF x] wR pR ew(1) ep(1) assms(5) by blast
  qed
  have x2: "\<not> snappedX (calculateSnap R pre tx ty g)
            \<and> \<not> \<bar>fsub (right target) (left inner)\<bar> \<le> WALL_SNAP_TOLERANCE_CM
            \<and> \<bar>fsub (left target) (right inner)\<bar> \<le> WALL_SNAP_TOLERANCE_CM
          \<longrightarrow> (wholeRoom g R \<and> wholeRoom g N \<longrightarrow> left snapped = right inner)
              \<and> (planRoom g R \<and> planRoom g N \<longrightarrow> \<bar>left snapped - right inner\<bar> \<le> 1 / 10 ^ 8)"
  proof (intro impI, elim conjE)
    assume n: "\<not> snappedX (calculateSnap R pre tx ty g)"
      and t1: "\<not> \<bar>fsub (right target) (left inner)\<bar> \<le> WALL_SNAP_TOLERANCE_CM"
      and t2: "\<bar>fsub (left target) (right inner)\<bar> \<le> WALL_SNAP_TOLERANCE_CM"
    have x: "xCm res = fadd (right inner) (WallSides.west ?ws)"
      using xCm_at_neighbour[OF assms(1) n, of rest] t1 t2 assms(2,3,5) by simp
    have r: "left snapped = fsub (xCm res) (WallSides.west ?ws)"
      by (simp add: assms(4) outerBounds_at)
    show "(wholeRoom g R \<and> wholeRoom g N \<longrightarrow> left snapped = right inner)
          \<and> (planRoom g R \<and> planRoom g N \<longrightarrow> \<bar>left snapped - right inner\<bar> \<le> 1 / 10 ^ 8)"
      unfolding r using near_back[OF x] wR pR ew(2) ep(2) assms(5) by blast
  qed
  have y1: "\<not> snappedY (calculateSnap R pre tx ty g)
            \<and> \<bar>fsub (bottom target) (top' inner)\<bar> \<le> WALL_SNAP_TOLERANCE_CM
          \<longrightarrow> (wholeRoom g R \<and> wholeRoom g N \<longrightarrow> bottom snapped = top' inner)
              \<and> (planRoom g R \<and> planRoom g N \<longrightarrow> \<bar>bottom snapped - top' inner\<bar> \<le> 1 / 10 ^ 8)"
  proof (intro impI, elim conjE)
    assume n: "\<not> snappedY (calculateSnap R pre tx ty g)"
      and t: "\<bar>fsub (bottom target) (top' inner)\<bar> \<le> WALL_SNAP_TOLERANCE_CM"
    have y: "yCm res = fsub (fsub (top' inner) (Room.heightCm R)) (WallSides.south ?ws)"
      using yCm_at_neighbour[OF assms(1) n, of rest] t assms(2,3,5) by simp
    have r: "bottom snapped = fadd (fadd (yCm res) (Room.heightCm R)) (WallSides.south ?ws)"
      by (simp add: assms(4) outerBounds_at)
    show "(wholeRoom g R \<and> wholeRoom g N \<longrightarrow> bottom snapped = top' inner)
          \<and> (planRoom g R \<and> planRoom g N \<longrightarrow> \<bar>bottom snapped - top' inner\<bar> \<le> 1 / 10 ^ 8)"
      unfolding r using far_back[OF y] wR pR ew(3) ep(3) assms(5) by blast
  qed
  have y2: "\<not> snappedY (calculateSnap R pre tx ty g)
            \<and> \<not> \<bar>fsub (bottom target) (top' inner)\<bar> \<le> WALL_SNAP_TOLERANCE_CM
            \<and> \<bar>fsub (top' target) (bottom inner)\<bar> \<le> WALL_SNAP_TOLERANCE_CM
          \<longrightarrow> (wholeRoom g R \<and> wholeRoom g N \<longrightarrow> top' snapped = bottom inner)
              \<and> (planRoom g R \<and> planRoom g N \<longrightarrow> \<bar>top' snapped - bottom inner\<bar> \<le> 1 / 10 ^ 8)"
  proof (intro impI, elim conjE)
    assume n: "\<not> snappedY (calculateSnap R pre tx ty g)"
      and t1: "\<not> \<bar>fsub (bottom target) (top' inner)\<bar> \<le> WALL_SNAP_TOLERANCE_CM"
      and t2: "\<bar>fsub (top' target) (bottom inner)\<bar> \<le> WALL_SNAP_TOLERANCE_CM"
    have y: "yCm res = fadd (bottom inner) (WallSides.north ?ws)"
      using yCm_at_neighbour[OF assms(1) n, of rest] t1 t2 assms(2,3,5) by simp
    have r: "top' snapped = fsub (yCm res) (WallSides.north ?ws)"
      by (simp add: assms(4) outerBounds_at)
    show "(wholeRoom g R \<and> wholeRoom g N \<longrightarrow> top' snapped = bottom inner)
          \<and> (planRoom g R \<and> planRoom g N \<longrightarrow> \<bar>top' snapped - bottom inner\<bar> \<le> 1 / 10 ^ 8)"
      unfolding r using near_back[OF y] wR pR ew(4) ep(4) assms(5) by blast
  qed
  show ?thesis using x1 x2 y1 y2 by blast
qed

lemma exMoving_whole: "wholeRoom 10 exMoving" "wholeRoom 10 exFirst"
  by (simp_all add: wholeRoom_def wholeCm_def getWallThicknessCm_def sideOr_def exMoving_def exFirst_def)

theorem calculateSnap_wall_overlap_exact_witness:
  "Room.ident exFirst \<noteq> Room.ident exMoving
   \<and> \<not> snappedX (calculateSnap exMoving [exAway] 93 93 10)
   \<and> \<bar>fsub (right (outerBoundsCm exMoving 10 (Some 93) (Some 93))) (left (innerBoundsCm exFirst None None))\<bar>
        \<le> WALL_SNAP_TOLERANCE_CM
   \<and> right (outerBoundsCm exMoving 10
         (Some (xCm (calculateSnap exMoving ([exAway] @ exFirst # [exSecond]) 93 93 10)))
         (Some (yCm (calculateSnap exMoving ([exAway] @ exFirst # [exSecond]) 93 93 10))))
       = left (innerBoundsCm exFirst None None)"
proof -
  have h1: "Room.ident exFirst \<noteq> Room.ident exMoving" by (simp add: exFirst_def exMoving_def)
  have h2: "\<not> snappedX (calculateSnap exMoving [exAway] 93 93 10)"
    by (simp add: snap_eval exMoving_def exAway_def)
  have h3: "\<bar>fsub (right (outerBoundsCm exMoving 10 (Some 93) (Some 93)))
                 (left (innerBoundsCm exFirst None None))\<bar> \<le> WALL_SNAP_TOLERANCE_CM"
    by (simp add: snap_eval exFirst_def exMoving_def)
  show ?thesis
    using calculateSnap_wall_overlap_exact[OF h1 refl refl refl refl,
        where pre = "[exAway]" and rest = "[exSecond]" and tx = 93 and ty = 93 and g = 10]
      h1 h2 h3 exMoving_whole
    by blast
qed

lemma exFifth_values:
  "\<bar>fsub (fadd (fadd (- 113) 100) 10) (rd (1 / 5))\<bar> \<le> 15"
  "fadd (fadd (fsub (fsub (rd (1 / 5)) 100) 10) 100) 10 \<noteq> rd (1 / 5)"
  by (simp_all add: fadd_def fsub_def rd_eval)

theorem calculateSnap_wall_overlap_counterexample:
  "Room.ident exSecond \<noteq> Room.ident exMoving
   \<and> exSecond \<in> set [exFirst, exSecond]
   \<and> \<bar>fsub (right (outerBoundsCm exMoving 10 (Some 93) (Some 93))) (left (innerBoundsCm exSecond None None))\<bar>
        \<le> WALL_SNAP_TOLERANCE_CM
   \<and> right (outerBoundsCm exMoving 10
         (Some (xCm (calculateSnap exMoving [exFirst, exSecond] 93 93 10)))
         (Some (yCm (calculateSnap exMoving [exFirst, exSecond] 93 93 10))))
       \<noteq> left (innerBoundsCm exSecond None None)
   \<and> Room.ident exFifth \<noteq> Room.ident exMoving
   \<and> \<bar>fsub (right (outerBoundsCm exMoving 10 (Some (- 113)) (Some 0))) (left (innerBoundsCm exFifth None None))\<bar>
        \<le> WALL_SNAP_TOLERANCE_CM
   \<and> right (outerBoundsCm exMoving 10
         (Some (xCm (calculateSnap exMoving [exFifth] (- 113) 0 10)))
         (Some (yCm (calculateSnap exMoving [exFifth] (- 113) 0 10))))
       \<noteq> left (innerBoundsCm exFifth None None)"
proof -
  have first: "Room.ident exSecond \<noteq> Room.ident exMoving \<and> exSecond \<in> set [exFirst, exSecond]
   \<and> \<bar>fsub (right (outerBoundsCm exMoving 10 (Some 93) (Some 93))) (left (innerBoundsCm exSecond None None))\<bar>
        \<le> WALL_SNAP_TOLERANCE_CM
   \<and> right (outerBoundsCm exMoving 10
         (Some (xCm (calculateSnap exMoving [exFirst, exSecond] 93 93 10)))
         (Some (yCm (calculateSnap exMoving [exFirst, exSecond] 93 93 10))))
       \<noteq> left (innerBoundsCm exSecond None None)"
    by (simp add: snap_eval exFirst_def exSecond_def exMoving_def)
  have id5: "Room.ident exFifth \<noteq> Room.ident exMoving" by (simp add: exFifth_def exMoving_def)
  have f: "left (innerBoundsCm exFifth None None) = rd (1 / 5)" "Room.widthCm exMoving = 100"
    "WallSides.east (getWallThicknessCm exMoving 10) = 10"
    by (simp_all add: innerBoundsCm_def getWallThicknessCm_def sideOr_def Let_def exFifth_def exMoving_def)
  have t: "\<bar>fsub (right (outerBoundsCm exMoving 10 (Some (- 113)) (Some 0)))
                (left (innerBoundsCm exFifth None None))\<bar> \<le> WALL_SNAP_TOLERANCE_CM"
    using exFifth_values(1) by (simp add: outerBounds_at f WALL_SNAP_TOLERANCE_CM_def)
  have n: "\<not> snappedX (calculateSnap exMoving [] (- 113) 0 10)" by (simp add: calculateSnap_def)
  have "xCm (calculateSnap exMoving ([] @ exFifth # []) (- 113) 0 10) = fsub (fsub (rd (1 / 5)) 100) 10"
    using xCm_at_neighbour[OF id5 n, of "[]"] t by (simp add: f)
  then have "right (outerBoundsCm exMoving 10
         (Some (xCm (calculateSnap exMoving [exFifth] (- 113) 0 10)))
         (Some (yCm (calculateSnap exMoving [exFifth] (- 113) 0 10))))
       \<noteq> left (innerBoundsCm exFifth None None)"
    using exFifth_values(2) by (simp add: outerBounds_at f)
  then show ?thesis using first id5 t by blast
qed

lemma example_east_xPart:
  assumes A: "Room.xCm A = 0" "Room.widthCm A = 300"
    and others: "filter (\<lambda>r. Room.ident r \<noteq> Room.ident B) allRooms = [A]"
    and B: "0 < Room.widthCm B" "0 \<le> WallSides.west (getWallThicknessCm B g)"
           "0 \<le> WallSides.east (getWallThicknessCm B g)"
    and plan: "planCm tx" "planCm (Room.widthCm B)" "planCm (WallSides.west (getWallThicknessCm B g))"
           "planCm (WallSides.east (getWallThicknessCm B g))"
    and near: "\<bar>fsub (left (outerBoundsCm B g (Some tx) (Some ty))) 300\<bar> \<le> WALL_SNAP_TOLERANCE_CM"
  shows "xPart (calculateSnap B allRooms tx ty g) =
           (fadd 300 (WallSides.west (getWallThicknessCm B g)), True, Some 300)"
proof -
  let ?we = "WallSides.west (getWallThicknessCm B g)"
  let ?ea = "WallSides.east (getWallThicknessCm B g)"
  let ?W = "Room.widthCm B"
  have b: "\<bar>tx\<bar> \<le> 1000000" "\<bar>?W\<bar> \<le> 1000000" "\<bar>?we\<bar> \<le> 1000000" "\<bar>?ea\<bar> \<le> 1000000"
    using plan by (simp_all add: planCm_def)
  have edges: "left (innerBoundsCm A None None) = 0" "right (innerBoundsCm A None None) = 300"
    using A by (simp_all add: innerBoundsCm_def Let_def fadd_def rd_whole)
  have l1: "\<bar>fsub tx ?we - (tx - ?we)\<bar> \<le> rdErr" and l2: "\<bar>fsub tx ?we\<bar> \<le> 2000001"
    using fsub_near[OF b(1) b(3)] by simp_all
  have c300: "\<bar>300::real\<bar> \<le> 300" by simp
  have l3: "\<bar>fsub (fsub tx ?we) 300 - (fsub tx ?we - 300)\<bar> \<le> rdErr"
    using fsub_near[OF l2 c300] by simp
  have n: "\<bar>fsub (fsub tx ?we) 300\<bar> \<le> 15"
    using near by (simp add: outerBounds_at WALL_SNAP_TOLERANCE_CM_def)
  have r1: "\<bar>fadd tx ?W - (tx + ?W)\<bar> \<le> rdErr" and r2: "\<bar>fadd tx ?W\<bar> \<le> 2000001"
    using fadd_near[OF b(1) b(2)] by simp_all
  have r3: "\<bar>fadd (fadd tx ?W) ?ea - (fadd tx ?W + ?ea)\<bar> \<le> rdErr"
    and r4: "\<bar>fadd (fadd tx ?W) ?ea\<bar> \<le> 3000002"
    using fadd_near[OF r2 b(4)] by simp_all
  have c0: "\<bar>0::real\<bar> \<le> 0" by simp
  have r5: "\<bar>fsub (fadd (fadd tx ?W) ?ea) 0 - (fadd (fadd tx ?W) ?ea - 0)\<bar> \<le> rdErr"
    using fsub_near[OF r4 c0] by simp
  have c1: "\<not> \<bar>fsub (fadd (fadd tx ?W) ?ea) 0\<bar> \<le> 15"
    using l1 l3 n r1 r3 r5 B rdErr_small(2) by linarith
  have fm: "firstMatch (tx, False, None) (xCandidates B (outerBoundsCm B g (Some tx) (Some ty)) g A) =
              (fadd 300 ?we, True, Some 300)"
    using c1 n
    by (simp add: firstMatch_def xCandidates_shape farCand_def nearCand_def matches_def edges
        WALL_SNAP_TOLERANCE_CM_def)
  show ?thesis
    using fm by (simp add: calculateSnap_xPart allXCandidates_def othersOf_def others)
qed

text \<open>
  C2 (amended).  Room \<open>A\<close> is at (0, 0), 300 by 400, and is the only other room; room \<open>B\<close>
  has a positive width and non-negative west and east walls, all at most \<open>10 ^ 6\<close> cm.
  Whenever the left outer edge of \<open>B\<close> at the target, the target \<open>x\<close> minus the west wall
  of \<open>B\<close> as the code computes it, is within 15 cm of 300, \<^verbatim>\<open>calculateSnap\<close> snaps X
  with guide 300 and returns the double nearest to 300 plus the west wall of \<open>B\<close>.  The
  left outer edge of \<open>B\<close> at the result is within \<open>1 / 10 ^ 8\<close> cm of 300, and when the west
  wall is a whole number of centimetres, \<open>B.xCm - wallThickness.west(B) = 300\<close> exactly.
  The sign of the claim, \<open>B.xCm + wallThickness.west(B) = 300\<close>, is not the code's; and
  with a west wall of 212.002 the left outer edge at the result is not the double 300.
\<close>

theorem calculateSnap_example_east:
  assumes A: "Room.xCm A = 0" "Room.yCm A = 0" "Room.widthCm A = 300" "Room.heightCm A = 400"
    and others: "filter (\<lambda>r. Room.ident r \<noteq> Room.ident B) allRooms = [A]"
    and B: "0 < Room.widthCm B" "0 \<le> WallSides.west (getWallThicknessCm B g)"
           "0 \<le> WallSides.east (getWallThicknessCm B g)"
    and plan: "planCm tx" "planCm (Room.widthCm B)" "planCm (WallSides.west (getWallThicknessCm B g))"
           "planCm (WallSides.east (getWallThicknessCm B g))"
    and near: "\<bar>fsub (left (outerBoundsCm B g (Some tx) (Some ty))) 300\<bar> \<le> WALL_SNAP_TOLERANCE_CM"
    and res: "res = calculateSnap B allRooms tx ty g"
  shows "snappedX res \<and> xGuideCm res = Some 300
         \<and> xCm res = fadd 300 (WallSides.west (getWallThicknessCm B g))
         \<and> \<bar>left (outerBoundsCm B g (Some (xCm res)) (Some (yCm res))) - 300\<bar> \<le> 1 / 10 ^ 8
         \<and> (wholeCm (WallSides.west (getWallThicknessCm B g)) \<longrightarrow>
              xCm res - WallSides.west (getWallThicknessCm B g) = 300
              \<and> left (outerBoundsCm B g (Some (xCm res)) (Some (yCm res))) = 300)"
proof -
  let ?we = "WallSides.west (getWallThicknessCm B g)"
  have x: "xCm res = fadd 300 ?we" and s: "snappedX res" and gd: "xGuideCm res = Some 300"
    using example_east_xPart[OF A(1,3) others B plan near] res by (simp_all add: xPart_def)
  have l: "left (outerBoundsCm B g (Some (xCm res)) (Some (yCm res))) = fsub (xCm res) ?we"
    by (simp add: outerBounds_at)
  have i300: "(300::real) \<in> \<int>" "\<bar>300::real\<bar> \<le> 3 * 2 ^ 40" "\<bar>300::real\<bar> \<le> 3000002" by simp_all
  have approx: "\<bar>fsub (xCm res) ?we - 300\<bar> \<le> 1 / 10 ^ 8"
    using near_back(2)[OF x] plan(3) i300(3) by blast
  have exact: "wholeCm ?we \<longrightarrow> xCm res - ?we = 300 \<and> fsub (xCm res) ?we = 300"
  proof
    assume w: "wholeCm ?we"
    have "fsub (xCm res) ?we = 300" using near_back(1)[OF x] w i300 by blast
    moreover have "fadd 300 ?we = 300 + ?we"
      using fadd_exact(1)[OF i300(1) _ i300(2), of ?we "2 ^ 40"] wholeCmD[OF w] by simp
    ultimately show "xCm res - ?we = 300 \<and> fsub (xCm res) ?we = 300" using x by simp
  qed
  show ?thesis using x s gd approx exact l by simp
qed

theorem calculateSnap_example_east_witness:
  "\<bar>fsub (left (outerBoundsCm exRoomB 10 (Some 322) (Some 0))) 300\<bar> \<le> WALL_SNAP_TOLERANCE_CM
   \<and> wholeCm (WallSides.west (getWallThicknessCm exRoomB 10))
   \<and> snappedX (calculateSnap exRoomB [exRoomA, exRoomB] 322 0 10)
   \<and> xCm (calculateSnap exRoomB [exRoomA, exRoomB] 322 0 10)
        - WallSides.west (getWallThicknessCm exRoomB 10) = 300
   \<and> left (outerBoundsCm exRoomB 10
        (Some (xCm (calculateSnap exRoomB [exRoomA, exRoomB] 322 0 10)))
        (Some (yCm (calculateSnap exRoomB [exRoomA, exRoomB] 322 0 10)))) = 300"
proof -
  have h1: "filter (\<lambda>r. Room.ident r \<noteq> Room.ident exRoomB) [exRoomA, exRoomB] = [exRoomA]"
    by (simp add: exRoomA_def exRoomB_def)
  have a: "Room.xCm exRoomA = 0" "Room.yCm exRoomA = 0" "Room.widthCm exRoomA = 300" "Room.heightCm exRoomA = 400"
    by (simp_all add: exRoomA_def)
  have b: "0 < Room.widthCm exRoomB" "0 \<le> WallSides.west (getWallThicknessCm exRoomB 10)"
           "0 \<le> WallSides.east (getWallThicknessCm exRoomB 10)"
    by (simp_all add: getWallThicknessCm_def sideOr_def exRoomB_def)
  have p: "planCm 322" "planCm (Room.widthCm exRoomB)" "planCm (WallSides.west (getWallThicknessCm exRoomB 10))"
           "planCm (WallSides.east (getWallThicknessCm exRoomB 10))"
    by (simp_all add: planCm_def getWallThicknessCm_def sideOr_def exRoomB_def)
  have h2: "\<bar>fsub (left (outerBoundsCm exRoomB 10 (Some 322) (Some 0))) 300\<bar> \<le> WALL_SNAP_TOLERANCE_CM"
    by (simp add: snap_eval exRoomB_def)
  have w: "wholeCm (WallSides.west (getWallThicknessCm exRoomB 10))"
    by (simp add: wholeCm_def getWallThicknessCm_def sideOr_def exRoomB_def)
  show ?thesis
    using calculateSnap_example_east[OF a h1 b p h2 refl] h2 w by blast
qed

lemma exThick_values:
  "\<bar>fsub (fsub 512 (rd (212002 / 1000))) 300\<bar> \<le> 15"
  "fsub (fadd 300 (rd (212002 / 1000))) (rd (212002 / 1000)) \<noteq> 300"
  "0 \<le> rd (212002 / 1000)" "\<bar>rd (212002 / 1000)\<bar> \<le> 1000000"
  by (simp_all add: fadd_def fsub_def rd_eval)

theorem calculateSnap_example_east_counterexample:
  "\<bar>fsub (left (outerBoundsCm exRoomB 10 (Some 322) (Some 0))) 300\<bar> \<le> WALL_SNAP_TOLERANCE_CM
   \<and> xCm (calculateSnap exRoomB [exRoomA, exRoomB] 322 0 10)
        + WallSides.west (getWallThicknessCm exRoomB 10) \<noteq> 300
   \<and> \<bar>fsub (left (outerBoundsCm exThick 10 (Some 512) (Some 0))) 300\<bar> \<le> WALL_SNAP_TOLERANCE_CM
   \<and> left (outerBoundsCm exThick 10
        (Some (xCm (calculateSnap exThick [exRoomA, exThick] 512 0 10)))
        (Some (yCm (calculateSnap exThick [exRoomA, exThick] 512 0 10)))) \<noteq> 300"
proof -
  have sign: "\<bar>fsub (left (outerBoundsCm exRoomB 10 (Some 322) (Some 0))) 300\<bar> \<le> WALL_SNAP_TOLERANCE_CM
   \<and> xCm (calculateSnap exRoomB [exRoomA, exRoomB] 322 0 10)
        + WallSides.west (getWallThicknessCm exRoomB 10) \<noteq> 300"
    by (simp add: snap_eval exRoomA_def exRoomB_def)
  have h1: "filter (\<lambda>r. Room.ident r \<noteq> Room.ident exThick) [exRoomA, exThick] = [exRoomA]"
    by (simp add: exRoomA_def exThick_def)
  have a: "Room.xCm exRoomA = 0" "Room.widthCm exRoomA = 300" by (simp_all add: exRoomA_def)
  have we: "WallSides.west (getWallThicknessCm exThick 10) = rd (212002 / 1000)"
    "WallSides.east (getWallThicknessCm exThick 10) = 10" "Room.widthCm exThick = 200"
    by (simp_all add: getWallThicknessCm_def sideOr_def exThick_def)
  have b: "0 < Room.widthCm exThick" "0 \<le> WallSides.west (getWallThicknessCm exThick 10)"
           "0 \<le> WallSides.east (getWallThicknessCm exThick 10)"
    using exThick_values(3) by (simp_all add: we)
  have p: "planCm 512" "planCm (Room.widthCm exThick)" "planCm (WallSides.west (getWallThicknessCm exThick 10))"
           "planCm (WallSides.east (getWallThicknessCm exThick 10))"
    using exThick_values(4) by (simp_all add: planCm_def we)
  have h2: "\<bar>fsub (left (outerBoundsCm exThick 10 (Some 512) (Some 0))) 300\<bar> \<le> WALL_SNAP_TOLERANCE_CM"
    using exThick_values(1) by (simp add: outerBounds_at we WALL_SNAP_TOLERANCE_CM_def)
  have "xCm (calculateSnap exThick [exRoomA, exThick] 512 0 10) = fadd 300 (rd (212002 / 1000))"
    using example_east_xPart[OF a h1 b p h2] by (simp add: xPart_def we)
  then have "left (outerBoundsCm exThick 10
        (Some (xCm (calculateSnap exThick [exRoomA, exThick] 512 0 10)))
        (Some (yCm (calculateSnap exThick [exRoomA, exThick] 512 0 10)))) \<noteq> 300"
    using exThick_values(2) by (simp add: outerBounds_at we)
  then show ?thesis using sign h2 by blast
qed

section \<open>History: undo and redo\<close>

lemma foldl_recordHistory:
  "ss \<noteq> [] \<Longrightarrow> foldl recordHistory h ss =
     \<lparr> past = past h @ (present h # butlast ss), present = last ss, future = [] \<rparr>"
proof (induction ss arbitrary: h)
  case Nil
  then show ?case by simp
next
  case (Cons s ss)
  show ?case
  proof (cases "ss = []")
    case True
    then show ?thesis by (simp add: recordHistory_def)
  next
    case False
    then show ?thesis using Cons.IH[of "recordHistory h s"] by (simp add: recordHistory_def)
  qed
qed

lemma undo_snoc:
  "undo \<lparr> past = p @ [x], present = c, future = f \<rparr> = \<lparr> past = p, present = x, future = c # f \<rparr>"
  by (simp add: undo_def)

lemma undo_funpow:
  "(undo ^^ length xs) \<lparr> past = p @ xs, present = c, future = f \<rparr> =
     \<lparr> past = p, present = hd (xs @ [c]), future = tl (xs @ [c]) @ f \<rparr>"
proof (induction xs arbitrary: c f rule: rev_induct)
  case Nil
  show ?case by simp
next
  case (snoc x xs)
  have "(undo ^^ length (xs @ [x])) \<lparr> past = p @ xs @ [x], present = c, future = f \<rparr> =
        (undo ^^ length xs) (undo \<lparr> past = (p @ xs) @ [x], present = c, future = f \<rparr>)"
    by (simp add: funpow_swap1)
  also have "\<dots> = (undo ^^ length xs) \<lparr> past = p @ xs, present = x, future = c # f \<rparr>"
    by (simp only: undo_snoc)
  also have "\<dots> = \<lparr> past = p, present = hd (xs @ [x]), future = tl (xs @ [x]) @ (c # f) \<rparr>"
    by (rule snoc.IH)
  finally show ?case by (cases xs) simp_all
qed

lemma redo_funpow:
  "(redo ^^ length ys) \<lparr> past = p, present = c, future = ys @ f \<rparr> =
     \<lparr> past = p @ butlast (c # ys), present = last (c # ys), future = f \<rparr>"
proof (induction ys arbitrary: p c)
  case Nil
  show ?case by simp
next
  case (Cons y ys)
  have "(redo ^^ length (y # ys)) \<lparr> past = p, present = c, future = (y # ys) @ f \<rparr> =
        (redo ^^ length ys) (redo \<lparr> past = p, present = c, future = y # (ys @ f) \<rparr>)"
    by (simp add: funpow_swap1)
  also have "\<dots> = (redo ^^ length ys) \<lparr> past = p @ [c], present = y, future = ys @ f \<rparr>"
    by (simp add: redo_def)
  also have "\<dots> = \<lparr> past = (p @ [c]) @ butlast (y # ys), present = last (y # ys), future = f \<rparr>"
    by (rule Cons.IH)
  finally show ?case by simp
qed

lemma undo_after_records:
  "ss \<noteq> [] \<Longrightarrow> (undo ^^ length ss) (foldl recordHistory h ss) =
     \<lparr> past = past h, present = present h, future = ss \<rparr>"
proof -
  assume ne: "ss \<noteq> []"
  have len: "length (present h # butlast ss) = length ss" using ne by simp
  have "(undo ^^ length ss) (foldl recordHistory h ss) =
        (undo ^^ length (present h # butlast ss))
          \<lparr> past = past h @ (present h # butlast ss), present = last ss, future = [] \<rparr>"
    by (simp only: foldl_recordHistory[OF ne] len[symmetric])
  also have "\<dots> = \<lparr> past = past h, present = hd ((present h # butlast ss) @ [last ss]),
                      future = tl ((present h # butlast ss) @ [last ss]) @ [] \<rparr>"
    by (rule undo_funpow)
  finally show ?thesis using ne by simp
qed

lemma redo_after_undo:
  "ss \<noteq> [] \<Longrightarrow> (redo ^^ length ss) ((undo ^^ length ss) (foldl recordHistory h ss)) =
     foldl recordHistory h ss"
proof -
  assume ne: "ss \<noteq> []"
  have "(redo ^^ length ss) ((undo ^^ length ss) (foldl recordHistory h ss)) =
        (redo ^^ length ss) \<lparr> past = past h, present = present h, future = ss \<rparr>"
    by (simp only: undo_after_records[OF ne])
  also have "\<dots> = \<lparr> past = past h @ butlast (present h # ss), present = last (present h # ss),
                      future = [] \<rparr>"
    using redo_funpow[of ss "past h" "present h" "[]"] by simp
  also have "\<dots> = foldl recordHistory h ss"
    using ne by (simp add: foldl_recordHistory)
  finally show ?thesis .
qed

text \<open>
  C3.  From any history \<open>h\<close>, record the states \<open>ss\<close> one after the other.  As many
  \<open>undo\<close> calls as states recorded bring \<open>present\<close> back to the \<open>present\<close> of \<open>h\<close>; as many
  \<open>redo\<close> calls after that restore the whole history the recordings had left, whose
  \<open>present\<close> is the state passed to the last \<open>recordHistory\<close> call (the \<open>present\<close> of \<open>h\<close>
  when nothing was recorded).
\<close>

theorem history_undo_redo_round_trip:
  "present ((undo ^^ length ss) (foldl recordHistory h ss)) = present h
   \<and> (redo ^^ length ss) ((undo ^^ length ss) (foldl recordHistory h ss)) = foldl recordHistory h ss
   \<and> present ((redo ^^ length ss) ((undo ^^ length ss) (foldl recordHistory h ss)))
       = last (present h # ss)
   \<and> present (foldl recordHistory h ss) = last (present h # ss)"
proof (cases "ss = []")
  case True
  then show ?thesis by simp
next
  case False
  have p: "present (foldl recordHistory h ss) = last (present h # ss)"
    using False by (simp add: foldl_recordHistory)
  have u: "present ((undo ^^ length ss) (foldl recordHistory h ss)) = present h"
    by (simp add: undo_after_records[OF False])
  have r: "(redo ^^ length ss) ((undo ^^ length ss) (foldl recordHistory h ss)) = foldl recordHistory h ss"
    by (rule redo_after_undo[OF False])
  have q: "present ((redo ^^ length ss) ((undo ^^ length ss) (foldl recordHistory h ss)))
       = last (present h # ss)"
    by (simp only: r p)
  show ?thesis using p u r q by blast
qed

section \<open>Rotation round trip\<close>

lemma rd_half:
  assumes "2 * x \<in> \<int>" "\<bar>x\<bar> < 2 ^ 52"
  shows "rd x = x"
proof -
  obtain k where "2 * x = of_int k" using assms(1) by (auto elim: Ints_cases)
  then show ?thesis using assms(2) by (rule rd_half_exact)
qed

lemma fadd_half:
  assumes "2 * a \<in> \<int>" "2 * b \<in> \<int>" "\<bar>a\<bar> \<le> A" "\<bar>b\<bar> \<le> B" "A + B \<le> 2 ^ 51"
  shows "fadd a b = a + b" "2 * (a + b) \<in> \<int>" "\<bar>a + b\<bar> \<le> A + B"
proof -
  have "2 * a + 2 * b \<in> \<int>" using assms(1,2) by (rule Ints_add)
  then show i: "2 * (a + b) \<in> \<int>" by (simp add: distrib_left)
  show b: "\<bar>a + b\<bar> \<le> A + B" using assms(3,4) by linarith
  have "\<bar>a + b\<bar> < 2 ^ 52" using b assms(5) by simp
  then show "fadd a b = a + b" unfolding fadd_def using i by (intro rd_half)
qed

lemma fsub_half:
  assumes "2 * a \<in> \<int>" "2 * b \<in> \<int>" "\<bar>a\<bar> \<le> A" "\<bar>b\<bar> \<le> B" "A + B \<le> 2 ^ 51"
  shows "fsub a b = a - b" "2 * (a - b) \<in> \<int>" "\<bar>a - b\<bar> \<le> A + B"
proof -
  have "2 * a - 2 * b \<in> \<int>" using assms(1,2) by (rule Ints_diff)
  then show i: "2 * (a - b) \<in> \<int>" by (simp add: right_diff_distrib)
  show b: "\<bar>a - b\<bar> \<le> A + B" using assms(3,4) by linarith
  have "\<bar>a - b\<bar> < 2 ^ 52" using b assms(5) by simp
  then show "fsub a b = a - b" unfolding fsub_def using i by (intro rd_half)
qed

lemma fdiv2_whole:
  assumes "wholeCm v"
  shows "fdiv v 2 = v / 2" "2 * (v / 2) \<in> \<int>" "\<bar>v / 2\<bar> \<le> 2 ^ 40"
proof -
  have v: "v \<in> \<int>" "\<bar>v\<bar> \<le> 2 ^ 40" using wholeCmD[OF assms] by simp_all
  show i: "2 * (v / 2) \<in> \<int>" using v(1) by simp
  show b: "\<bar>v / 2\<bar> \<le> 2 ^ 40" using v(2) by simp
  have "\<bar>v / 2\<bar> < 2 ^ 52" using b by simp
  then show "fdiv v 2 = v / 2" unfolding fdiv_def using i by (intro rd_half)
qed

lemma fdiv2_plan:
  assumes "planCm v"
  shows "\<bar>fdiv v 2\<bar> \<le> 1000000"
proof -
  have v: "\<bar>v\<bar> \<le> 1000000" using assms by (simp add: planCm_def)
  then have "\<bar>v / 2\<bar> \<le> 8000000" by simp
  then have "\<bar>rd (v / 2) - v / 2\<bar> \<le> rdErr" unfolding rdErr_def by (rule rd_near)
  then show ?thesis unfolding fdiv_def using v rdErr_small(2) by linarith
qed

text \<open>The round trip on one axis: out by \<open>p\<close> and restored by \<open>q\<close>, then the reverse.\<close>

lemma round_trip_exact:
  assumes "wholeCm a" "2 * p \<in> \<int>" "\<bar>p\<bar> \<le> 2 ^ 40" "2 * q \<in> \<int>" "\<bar>q\<bar> \<le> 2 ^ 40"
  shows "fsub (fadd (fsub (fadd a p) q) q) p = a" "fsub (fadd a p) q = a + p - q"
proof -
  have a: "2 * a \<in> \<int>" "\<bar>a\<bar> \<le> 2 ^ 40" using wholeCmD[OF assms(1)] by simp_all
  note s1 = fadd_half[OF a(1) assms(2) a(2) assms(3)]
  have s1a: "fadd a p = a + p" and s1b: "2 * (a + p) \<in> \<int>" and s1c: "\<bar>a + p\<bar> \<le> 2 ^ 40 + 2 ^ 40"
    using s1 by simp_all
  note s2 = fsub_half[OF s1b assms(4) s1c assms(5)]
  have s2a: "fsub (a + p) q = a + p - q" and s2b: "2 * (a + p - q) \<in> \<int>"
    and s2c: "\<bar>a + p - q\<bar> \<le> 2 ^ 40 + 2 ^ 40 + 2 ^ 40" using s2 by simp_all
  note s3 = fadd_half[OF s2b assms(4) s2c assms(5)]
  have s3a: "fadd (a + p - q) q = a + p - q + q" and s3b: "2 * (a + p - q + q) \<in> \<int>"
    and s3c: "\<bar>a + p - q + q\<bar> \<le> 2 ^ 40 + 2 ^ 40 + 2 ^ 40 + 2 ^ 40" using s3 by simp_all
  have s4a: "fsub (a + p - q + q) p = a + p - q + q - p"
    using fsub_half[OF s3b assms(2) s3c assms(3)] by simp
  show "fsub (fadd (fsub (fadd a p) q) q) p = a" by (simp only: s1a s2a s3a s4a)
  show "fsub (fadd a p) q = a + p - q" by (simp only: s1a s2a)
qed

lemma round_trip_near:
  assumes "planCm a" "\<bar>p\<bar> \<le> 1000000" "\<bar>q\<bar> \<le> 1000000"
  shows "\<bar>fsub (fadd (fsub (fadd a p) q) q) p - a\<bar> \<le> 5 * rdErr"
proof -
  have a: "\<bar>a\<bar> \<le> 1000000" using assms(1) by (simp add: planCm_def)
  have s1: "\<bar>fadd a p - (a + p)\<bar> \<le> rdErr" and b1: "\<bar>fadd a p\<bar> \<le> 2000001"
    using fadd_near[OF a assms(2)] by simp_all
  have s2: "\<bar>fsub (fadd a p) q - (fadd a p - q)\<bar> \<le> rdErr" and b2: "\<bar>fsub (fadd a p) q\<bar> \<le> 3000002"
    using fsub_near[OF b1 assms(3)] by simp_all
  have s3: "\<bar>fadd (fsub (fadd a p) q) q - (fsub (fadd a p) q + q)\<bar> \<le> rdErr"
    and b3: "\<bar>fadd (fsub (fadd a p) q) q\<bar> \<le> 4000003"
    using fadd_near[OF b2 assms(3)] by simp_all
  have s4: "\<bar>fsub (fadd (fsub (fadd a p) q) q) p - (fadd (fsub (fadd a p) q) q - p)\<bar> \<le> rdErr"
    using fsub_near[OF b3 assms(2)] by simp
  show ?thesis using s1 s2 s3 s4 rdErr_small(1) by linarith
qed

lemma jsRem_quarter: "jsRem 90 180 \<noteq> 0" "jsRem 270 180 \<noteq> 0"
  by (simp_all add: jsRem_def)

lemma rotated_forms:
  assumes "rotation = 90 \<or> rotation = 270"
  shows "getVisualBounds x y origW origH rotation =
           \<lparr> visX = fsub (fadd x (fdiv origW 2)) (fdiv origH 2),
             visY = fsub (fadd y (fdiv origH 2)) (fdiv origW 2), visW = origH, visH = origW \<rparr>"
    and "visualToStorage vx vy origW origH rotation =
           (fsub (fadd vx (fdiv origH 2)) (fdiv origW 2), fsub (fadd vy (fdiv origW 2)) (fdiv origH 2))"
  using assms jsRem_quarter by (auto simp: getVisualBounds_def visualToStorage_def Let_def)

text \<open>
  C7 (amended).  For a rotation of 90 or 270 degrees, the box \<^verbatim>\<open>getVisualBounds\<close>
  returns has width and height swapped.  When the stored position and the dimensions are
  whole centimetres, \<^verbatim>\<open>visualToStorage\<close> applied to the top-left corner of that box
  gives back the stored position exactly, and the box has the centre of the stored
  rectangle.  When they are at most \<open>10 ^ 6\<close> cm in magnitude, the position that comes
  back is within \<open>1 / 10 ^ 8\<close> cm of the stored one on each axis.  It is not always the
  stored one: from the double 0.2, with a 60 by 40 object at 90 degrees, another double
  comes back.
\<close>

theorem visual_bounds_round_trip:
  assumes "rotation = 90 \<or> rotation = 270"
    and "vb = getVisualBounds x y origW origH rotation"
    and "restored = visualToStorage (visX vb) (visY vb) origW origH rotation"
  shows "visW vb = origH \<and> visH vb = origW
         \<and> (wholeCm x \<and> wholeCm y \<and> wholeCm origW \<and> wholeCm origH \<longrightarrow>
              restored = (x, y)
              \<and> visX vb + visW vb / 2 = x + origW / 2
              \<and> visY vb + visH vb / 2 = y + origH / 2)
         \<and> (planCm x \<and> planCm y \<and> planCm origW \<and> planCm origH \<longrightarrow>
              \<bar>fst restored - x\<bar> \<le> 1 / 10 ^ 8 \<and> \<bar>snd restored - y\<bar> \<le> 1 / 10 ^ 8)"
proof -
  let ?p = "fdiv origW 2" and ?q = "fdiv origH 2"
  have vb: "vb = \<lparr> visX = fsub (fadd x ?p) ?q, visY = fsub (fadd y ?q) ?p, visW = origH, visH = origW \<rparr>"
    using rotated_forms(1)[OF assms(1)] assms(2) by simp
  have restored: "restored = (fsub (fadd (fsub (fadd x ?p) ?q) ?q) ?p, fsub (fadd (fsub (fadd y ?q) ?p) ?p) ?q)"
    using rotated_forms(2)[OF assms(1)] assms(3) vb by simp
  have whole: "wholeCm x \<and> wholeCm y \<and> wholeCm origW \<and> wholeCm origH \<longrightarrow>
              restored = (x, y) \<and> visX vb + visW vb / 2 = x + origW / 2
              \<and> visY vb + visH vb / 2 = y + origH / 2"
  proof (intro impI, elim conjE)
    assume w: "wholeCm x" "wholeCm y" "wholeCm origW" "wholeCm origH"
    note p = fdiv2_whole[OF w(3)] and q = fdiv2_whole[OF w(4)]
    have pp: "2 * ?p \<in> \<int>" "\<bar>?p\<bar> \<le> 2 ^ 40" unfolding p(1) using p(2,3) by blast+
    have qq: "2 * ?q \<in> \<int>" "\<bar>?q\<bar> \<le> 2 ^ 40" unfolding q(1) using q(2,3) by blast+
    note rx = round_trip_exact[OF w(1) pp qq] and ry = round_trip_exact[OF w(2) qq pp]
    have "restored = (x, y)" using rx(1) ry(1) restored by simp
    moreover have "visX vb + visW vb / 2 = x + origW / 2"
    proof -
      have "visX vb = x + ?p - ?q" using rx(2) by (simp add: vb)
      moreover have "visW vb = origH" by (simp add: vb)
      ultimately have "visX vb + visW vb / 2 = x + origW / 2 - origH / 2 + origH / 2"
        by (simp only: p(1) q(1))
      then show ?thesis by simp
    qed
    moreover have "visY vb + visH vb / 2 = y + origH / 2"
    proof -
      have "visY vb = y + ?q - ?p" using ry(2) by (simp add: vb)
      moreover have "visH vb = origW" by (simp add: vb)
      ultimately have "visY vb + visH vb / 2 = y + origH / 2 - origW / 2 + origW / 2"
        by (simp only: p(1) q(1))
      then show ?thesis by simp
    qed
    ultimately show "restored = (x, y) \<and> visX vb + visW vb / 2 = x + origW / 2
              \<and> visY vb + visH vb / 2 = y + origH / 2" by blast
  qed
  have plan: "planCm x \<and> planCm y \<and> planCm origW \<and> planCm origH \<longrightarrow>
              \<bar>fst restored - x\<bar> \<le> 1 / 10 ^ 8 \<and> \<bar>snd restored - y\<bar> \<le> 1 / 10 ^ 8"
  proof (intro impI, elim conjE)
    assume w: "planCm x" "planCm y" "planCm origW" "planCm origH"
    note p = fdiv2_plan[OF w(3)] and q = fdiv2_plan[OF w(4)]
    show "\<bar>fst restored - x\<bar> \<le> 1 / 10 ^ 8 \<and> \<bar>snd restored - y\<bar> \<le> 1 / 10 ^ 8"
      using round_trip_near[OF w(1) p q] round_trip_near[OF w(2) q p] restored rdErr_small(3) by simp
  qed
  show ?thesis using whole plan vb by simp
qed

theorem visual_bounds_round_trip_witness:
  "getVisualBounds 10 20 60 40 90 = \<lparr> visX = 20, visY = 10, visW = 40, visH = 60 \<rparr>
   \<and> visualToStorage (visX (getVisualBounds 10 20 60 40 90))
                      (visY (getVisualBounds 10 20 60 40 90)) 60 40 90 = (10, 20)"
proof -
  have h: "(90::real) = 90 \<or> (90::real) = 270" by simp
  have w: "wholeCm 10" "wholeCm 20" "wholeCm 60" "wholeCm 40" by (simp_all add: wholeCm_def)
  have v: "getVisualBounds 10 20 60 40 90 = \<lparr> visX = 20, visY = 10, visW = 40, visH = 60 \<rparr>"
    by (simp add: rotated_forms(1)[OF h] fadd_def fsub_def fdiv_def rd_whole)
  show ?thesis using visual_bounds_round_trip[OF h refl refl, of 10 20 60 40] v w by blast
qed

lemma exFifth_round_trip:
  "fsub (fadd (fsub (fadd (rd (1 / 5)) 30) 20) 20) 30 \<noteq> rd (1 / 5)"
  by (simp add: fadd_def fsub_def rd_eval)

theorem visual_bounds_round_trip_counterexample:
  "fst (visualToStorage (visX (getVisualBounds (rd (1 / 5)) 10 60 40 90))
                        (visY (getVisualBounds (rd (1 / 5)) 10 60 40 90)) 60 40 90)
     \<noteq> rd (1 / 5)"
proof -
  have h: "(90::real) = 90 \<or> (90::real) = 270" by simp
  have d: "fdiv 60 2 = 30" "fdiv 40 2 = 20" by (simp_all add: fdiv_def rd_whole)
  show ?thesis using exFifth_round_trip
    by (simp add: rotated_forms[OF h] d)
qed

section \<open>Object snapping: the nearest candidate wins\<close>













lemma foldl_pick_none:
  assumes "\<forall>c' \<in> set cs. matches c' \<longrightarrow> \<not> distance c' < fst best"
  shows "foldl pick best cs = best"
  using assms by (induction cs arbitrary: best) (auto simp: pick_def)

lemma foldl_pick_nearest:
  assumes "c \<in> set cs" "matches c" "distance c < fst best"
    and "\<forall>c' \<in> set cs. matches c' \<longrightarrow> c' = c \<or> distance c < distance c'"
  shows "foldl pick best cs = (distance c, (pos c, True, Some (guide c)))"
  using assms
proof (induction cs arbitrary: best)
  case Nil
  then show ?case by simp
next
  case (Cons c0 cs)
  show ?case
  proof (cases "c0 = c")
    case True
    have step: "pick best c0 = (distance c, (pos c, True, Some (guide c)))"
      using True Cons.prems(2,3) by (simp add: pick_def)
    have "\<forall>c' \<in> set cs. matches c' \<longrightarrow> \<not> distance c' < distance c"
      using Cons.prems(4) by auto
    then have "foldl pick (distance c, (pos c, True, Some (guide c))) cs
                 = (distance c, (pos c, True, Some (guide c)))"
      using foldl_pick_none[of cs "(distance c, (pos c, True, Some (guide c)))"] by simp
    then show ?thesis using step by simp
  next
    case False
    then have mem: "c \<in> set cs" using Cons.prems(1) by simp
    have later: "\<forall>c' \<in> set cs. matches c' \<longrightarrow> c' = c \<or> distance c < distance c'"
      using Cons.prems(4) by simp
    have "distance c < fst (pick best c0)"
      using Cons.prems(3,4) False by (auto simp: pick_def)
    then show ?thesis using Cons.IH[OF mem Cons.prems(2) _ later, of "pick best c0"] by simp
  qed
qed

lemma nearestMatch_strictlyNearest:
  assumes "strictlyNearest c cs" "distance c < bound"
  shows "nearestMatch bound unsnapped cs = (pos c, True, Some (guide c))"
  using foldl_pick_nearest[of c cs "(bound, unsnapped)"] assms
  by (simp add: nearestMatch_def strictlyNearest_def)















section \<open>Deleting a room\<close>

text \<open>
  C8.  \<open>deleteRoom\<close> removes the room with the given id and exactly the wall openings and
  placed objects whose room reference is that id: no room, opening or placed object of
  the result refers to the deleted id, all others are kept, and a state without dangling
  references stays without them.
\<close>

theorem deleteRoom_cascades:
  "deletedId \<notin> Room.ident ` set (rooms (deleteRoom st deletedId))
   \<and> set (rooms (deleteRoom st deletedId)) = {r \<in> set (rooms st). Room.ident r \<noteq> deletedId}
   \<and> (\<forall>opening \<in> set (wallOpenings (deleteRoom st deletedId)). WallOpening.roomId opening \<noteq> deletedId)
   \<and> set (wallOpenings (deleteRoom st deletedId))
        = {opening \<in> set (wallOpenings st). WallOpening.roomId opening \<noteq> deletedId}
   \<and> (\<forall>p \<in> set (placedObjects (deleteRoom st deletedId)). PlacedObject.roomId p \<noteq> deletedId)
   \<and> set (placedObjects (deleteRoom st deletedId))
        = {p \<in> set (placedObjects st). PlacedObject.roomId p \<noteq> deletedId}
   \<and> (noDanglingRefs st \<longrightarrow> noDanglingRefs (deleteRoom st deletedId))"
proof -
  have wf: "noDanglingRefs st \<Longrightarrow> noDanglingRefs (deleteRoom st deletedId)"
    unfolding noDanglingRefs_def deleteRoom_def by (auto simp: image_iff)
  show ?thesis using wf by (auto simp: deleteRoom_def)
qed

theorem deleteRoom_cascades_witness:
  "noDanglingRefs (deleteRoom exState ''A'')
   \<and> rooms (deleteRoom exState ''A'') = [exRoomB]
   \<and> wallOpenings (deleteRoom exState ''A'') = [exOpeningB]
   \<and> placedObjects (deleteRoom exState ''A'') = [exPlacedB]"
proof -
  have wf: "noDanglingRefs exState"
    by (simp add: noDanglingRefs_def exState_def exOpeningA_def exOpeningB_def exPlacedA_def
        exPlacedB_def exRoomA_def exRoomB_def)
  have ev: "rooms (deleteRoom exState ''A'') = [exRoomB]"
    "wallOpenings (deleteRoom exState ''A'') = [exOpeningB]"
    "placedObjects (deleteRoom exState ''A'') = [exPlacedB]"
    by (simp_all add: deleteRoom_def exState_def exOpeningA_def exOpeningB_def exPlacedA_def
        exPlacedB_def exRoomA_def exRoomB_def)
  show ?thesis using deleteRoom_cascades[of "''A''" exState] wf ev by blast
qed

section \<open>Pointer handlers and history\<close>

lemma handleSvgPointerMove_stacks:
  "past (history (handleSvgPointerMove deps e ed)) = past (history ed)
   \<and> future (history (handleSvgPointerMove deps e ed)) = future (history ed)
   \<and> dragState (handleSvgPointerMove deps e ed) = dragState ed
   \<and> svgAttached (handleSvgPointerMove deps e ed) = svgAttached ed"
  by (simp add: handleSvgPointerMove_def updateState_def Let_def split: option.splits prod.splits)

lemma afterMoves_stacks:
  "past (history (afterMoves deps samples ed)) = past (history ed)
   \<and> future (history (afterMoves deps samples ed)) = future (history ed)
   \<and> dragState (afterMoves deps samples ed) = dragState ed"
proof (induction samples arbitrary: ed)
  case Nil
  show ?case by (simp add: afterMoves_def)
next
  case (Cons e es)
  have "afterMoves deps (e # es) ed = afterMoves deps es (handleSvgPointerMove deps e ed)"
    by (simp add: afterMoves_def)
  then show ?case using Cons.IH[of "handleSvgPointerMove deps e ed"]
      handleSvgPointerMove_stacks[of deps e ed] by simp
qed

lemma handleSvgPointerUp_records:
  assumes "dragState ed = Some ds" "roomId ds \<noteq> ''__pan__''"
  shows "history (handleSvgPointerUp e ed) = recordHistory (history ed) (present (history ed))"
    and "dragState (handleSvgPointerUp e ed) = None"
  using assms by (simp_all add: handleSvgPointerUp_def Let_def)

lemma handleSvgPointerUp_idle:
  "dragState ed = None \<Longrightarrow> history (handleSvgPointerUp e ed) = history ed"
  by (simp add: handleSvgPointerUp_def Let_def)

lemma afterMoves_attached:
  "svgAttached (afterMoves deps samples ed) = svgAttached ed"
proof (induction samples arbitrary: ed)
  case Nil
  show ?case by (simp add: afterMoves_def)
next
  case (Cons e es)
  have "afterMoves deps (e # es) ed = afterMoves deps es (handleSvgPointerMove deps e ed)"
    by (simp add: afterMoves_def)
  then show ?case using Cons.IH[of "handleSvgPointerMove deps e ed"]
      handleSvgPointerMove_stacks[of deps e ed] by simp
qed

lemma handleSvgPointerMove_resize:
  assumes "dragState ed = Some ds" "roomId ds \<noteq> ''__pan__''" "svgAttached ed"
    and "targetType ds = Some Resize" "initialRoom ds \<noteq> None"
    and "resizeHandle ds \<noteq> None" "resizeHandle ds \<noteq> Some []"
  shows "history (handleSvgPointerMove deps e ed)
           = (history ed)\<lparr> present := resizeStep deps e ds (present (history ed)) \<rparr>"
  using assms by (simp add: handleSvgPointerMove_def updateState_def Let_def)

lemma handleSvgPointerMove_placed:
  assumes "dragState ed = Some ds" "roomId ds \<noteq> ''__pan__''" "svgAttached ed"
    and "targetType ds = Some Placed"
    and "placedStep deps e ds (present (history ed)) = Some (snapRes, newState)"
  shows "history (handleSvgPointerMove deps e ed) = (history ed)\<lparr> present := newState \<rparr>"
    and "currentSnapResult (handleSvgPointerMove deps e ed) = Some snapRes"
  using assms by (simp_all add: handleSvgPointerMove_def updateState_def Let_def)

lemma handleSvgPointerMove_room:
  assumes "dragState ed = Some ds" "roomId ds \<noteq> ''__pan__''" "svgAttached ed"
    and "targetType ds = Some RoomDrag" "multiDragRooms ds = Some ms" "ms \<noteq> []"
    and "roomStep deps e ds (present (history ed)) = Some (snapRes, newState)"
  shows "history (handleSvgPointerMove deps e ed) = (history ed)\<lparr> present := newState \<rparr>"
    and "currentSnapResult (handleSvgPointerMove deps e ed) = Some snapRes"
  using assms by (simp_all add: handleSvgPointerMove_def updateState_def Let_def)

text \<open>
  C9.  With a drag, resize or object drag active (a drag state that is not the pan), every
  pointer-move event of the gesture sets \<open>present\<close> to the state its branch computes and
  leaves \<open>past\<close> and \<open>future\<close> as they were: after any run of moves, the next move of a
  resize makes \<open>present\<close> the resized state, the next move of an object drag or of a room
  drag makes it the state with the object or the rooms at their new place, and the
  history is otherwise the one before the move.  The drag state is kept.  The release
  that follows, be it pointer-up, pointer-cancel or pointer-leave, runs
  \<^verbatim>\<open>handleSvgPointerUp\<close>, which records one checkpoint, so that \<open>past\<close> is one entry longer
  than before the drag, and clears the drag state; a further release event records
  nothing.
\<close>

theorem drag_records_one_checkpoint:
  assumes "dragState ed = Some ds" and "roomId ds \<noteq> ''__pan__''"
    and "release \<in> {PointerUp e, PointerCancel e, PointerLeave e}"
    and "dragged = afterMoves deps samples ed"
    and "moved = onSvgEvent deps (PointerMove m) dragged"
    and "released = onSvgEvent deps release dragged"
  shows "(svgAttached ed \<and> targetType ds = Some Resize \<and> initialRoom ds \<noteq> None
            \<and> resizeHandle ds \<noteq> None \<and> resizeHandle ds \<noteq> Some [] \<longrightarrow>
            history moved = (history dragged)\<lparr> present := resizeStep deps m ds (present (history dragged)) \<rparr>)
         \<and> (svgAttached ed \<and> targetType ds = Some Placed
            \<and> placedStep deps m ds (present (history dragged)) = Some (objSnap, objState) \<longrightarrow>
            history moved = (history dragged)\<lparr> present := objState \<rparr>
            \<and> currentSnapResult moved = Some objSnap)
         \<and> (svgAttached ed \<and> targetType ds = Some RoomDrag \<and> multiDragRooms ds = Some ms \<and> ms \<noteq> []
            \<and> roomStep deps m ds (present (history dragged)) = Some (roomSnap, roomState) \<longrightarrow>
            history moved = (history dragged)\<lparr> present := roomState \<rparr>
            \<and> currentSnapResult moved = Some roomSnap)
         \<and> past (history moved) = past (history ed)
         \<and> future (history moved) = future (history ed)
         \<and> dragState moved = Some ds
         \<and> past (history dragged) = past (history ed)
         \<and> future (history dragged) = future (history ed)
         \<and> dragState dragged = Some ds
         \<and> history released = recordHistory (history dragged) (present (history dragged))
         \<and> past (history released) = past (history ed) @ [present (history dragged)]
         \<and> present (history released) = present (history dragged)
         \<and> length (past (history released)) = length (past (history ed)) + 1
         \<and> dragState released = None
         \<and> onSvgEvent deps (PointerCancel e) dragged = onSvgEvent deps (PointerUp e) dragged
         \<and> onSvgEvent deps (PointerLeave e) dragged = onSvgEvent deps (PointerUp e) dragged
         \<and> history (onSvgEvent deps (PointerUp e') released) = history released"
proof -
  have m: "past (history dragged) = past (history ed)" "future (history dragged) = future (history ed)"
    "dragState dragged = Some ds"
    using afterMoves_stacks[of deps samples ed] assms(1,4) by simp_all
  have att: "svgAttached dragged = svgAttached ed"
    using afterMoves_attached[of deps samples ed] assms(4) by simp
  have mv: "moved = handleSvgPointerMove deps m dragged" using assms(5) by simp
  have n: "past (history moved) = past (history ed)" "future (history moved) = future (history ed)"
    "dragState moved = Some ds"
    using handleSvgPointerMove_stacks[of deps m dragged] m mv by simp_all
  have resize: "history moved = (history dragged)\<lparr> present := resizeStep deps m ds (present (history dragged)) \<rparr>"
    if "svgAttached ed \<and> targetType ds = Some Resize \<and> initialRoom ds \<noteq> None
            \<and> resizeHandle ds \<noteq> None \<and> resizeHandle ds \<noteq> Some []"
    using handleSvgPointerMove_resize[OF m(3) assms(2), of deps m] that att mv by simp
  have placed: "history moved = (history dragged)\<lparr> present := objState \<rparr>
            \<and> currentSnapResult moved = Some objSnap"
    if "svgAttached ed \<and> targetType ds = Some Placed
            \<and> placedStep deps m ds (present (history dragged)) = Some (objSnap, objState)"
    using handleSvgPointerMove_placed[OF m(3) assms(2), of deps m objSnap objState] that att mv by simp
  have room: "history moved = (history dragged)\<lparr> present := roomState \<rparr>
            \<and> currentSnapResult moved = Some roomSnap"
    if "svgAttached ed \<and> targetType ds = Some RoomDrag \<and> multiDragRooms ds = Some ms \<and> ms \<noteq> []
            \<and> roomStep deps m ds (present (history dragged)) = Some (roomSnap, roomState)"
    using handleSvgPointerMove_room[OF m(3) assms(2), of ms deps m roomSnap roomState] that att mv by simp
  have rel: "released = handleSvgPointerUp e dragged"
    using assms(3,6) by auto
  have h: "history released = recordHistory (history dragged) (present (history dragged))"
    and d: "dragState released = None"
    using handleSvgPointerUp_records[OF m(3) assms(2), of e] rel by simp_all
  have idle: "history (onSvgEvent deps (PointerUp e') released) = history released"
    using handleSvgPointerUp_idle[OF d, of e'] by simp
  have tail: "past (history released) = past (history ed) @ [present (history dragged)]"
    "present (history released) = present (history dragged)"
    "length (past (history released)) = length (past (history ed)) + 1"
    using h m by (simp_all add: recordHistory_def)
  have same: "onSvgEvent deps (PointerCancel e) dragged = onSvgEvent deps (PointerUp e) dragged"
    "onSvgEvent deps (PointerLeave e) dragged = onSvgEvent deps (PointerUp e) dragged"
    by simp_all
  show ?thesis using resize placed room n m h tail d same idle by blast
qed

lemma exEditor_moved:
  "present (history (afterMoves exDeps [exSample 480] exEditor))
     = exState\<lparr> rooms := [exRoomA, exRoomB\<lparr> Room.xCm := 480, Room.yCm := 0 \<rparr>] \<rparr>"
  by (simp add: afterMoves_def handleSvgPointerMove_def updateState_def Let_def exDeps_def exEditor_def
      exDrag_def exSample_def exState_def exRoomA_def exRoomB_def)

theorem drag_records_one_checkpoint_witness:
  "present (history (onSvgEvent exDeps (PointerMove (exSample 450))
                       (afterMoves exDeps [exSample 480] exEditor)))
     = exState\<lparr> rooms := [exRoomA, exRoomB\<lparr> Room.xCm := 450, Room.yCm := 0 \<rparr>] \<rparr>
   \<and> past (history (onSvgEvent exDeps (PointerMove (exSample 450))
                       (afterMoves exDeps [exSample 480] exEditor))) = []
   \<and> past (history (onSvgEvent exDeps (PointerCancel (exSample 450))
                (afterMoves exDeps [exSample 480] exEditor)))
       = [exState\<lparr> rooms := [exRoomA, exRoomB\<lparr> Room.xCm := 480, Room.yCm := 0 \<rparr>] \<rparr>]
   \<and> present (history (onSvgEvent exDeps (PointerCancel (exSample 450))
                (afterMoves exDeps [exSample 480] exEditor)))
       = exState\<lparr> rooms := [exRoomA, exRoomB\<lparr> Room.xCm := 480, Room.yCm := 0 \<rparr>] \<rparr>
   \<and> dragState (onSvgEvent exDeps (PointerCancel (exSample 450))
                (afterMoves exDeps [exSample 480] exEditor)) = None"
proof -
  let ?dragged = "afterMoves exDeps [exSample 480] exEditor"
  let ?st = "exState\<lparr> rooms := [exRoomA, exRoomB\<lparr> Room.xCm := 450, Room.yCm := 0 \<rparr>] \<rparr>"
  let ?snap = "\<lparr> xCm = 450, yCm = 0, snappedX = False, snappedY = False,
                  xGuideCm = None, yGuideCm = None \<rparr>"
  have d: "dragState exEditor = Some exDrag" by (simp add: exEditor_def)
  have r: "roomId exDrag \<noteq> ''__pan__''" by (simp add: exDrag_def)
  have u: "PointerCancel (exSample 450)
             \<in> {PointerUp (exSample 450), PointerCancel (exSample 450), PointerLeave (exSample 450)}"
    by simp
  have p: "past (history exEditor) = []" "svgAttached exEditor" by (simp_all add: exEditor_def)
  have b: "targetType exDrag = Some RoomDrag" "multiDragRooms exDrag = Some [(''B'', 500, 0)]"
    "[(''B'', 500::real, 0::real)] \<noteq> []"
    by (simp_all add: exDrag_def)
  have s: "roomStep exDeps (exSample 450) exDrag (present (history ?dragged)) = Some (?snap, ?st)"
    by (simp add: exEditor_moved)
       (simp add: exDeps_def exDrag_def exSample_def exState_def exRoomA_def exRoomB_def)
  let ?moved = "onSvgEvent exDeps (PointerMove (exSample 450)) ?dragged"
  let ?released = "onSvgEvent exDeps (PointerCancel (exSample 450)) ?dragged"
  have t: "history ?moved = (history ?dragged)\<lparr> present := ?st \<rparr>
           \<and> past (history ?moved) = past (history exEditor)
           \<and> past (history ?dragged) = past (history exEditor)
           \<and> past (history ?released) = past (history exEditor) @ [present (history ?dragged)]
           \<and> present (history ?released) = present (history ?dragged)
           \<and> dragState ?released = None"
    using drag_records_one_checkpoint[OF d r u refl refl refl,
        where deps = exDeps and samples = "[exSample 480]" and m = "exSample 450"
          and ms = "[(''B'', 500, 0)]" and roomSnap = ?snap and roomState = ?st
          and e' = "exSample 450"] p(2) b s
    by blast
  then show ?thesis using p(1) exEditor_moved by simp
qed

end
